theory Spec2Isabelle
  imports Main "HOL-Library.AList" "HOL-Library.Char_ord" "HOL-Library.List_Lexorder"
    "HOL-Library.Product_Lexorder"
begin

section \<open>JavaScript values and strings\<close>

text \<open>
  The module under verification is \<^verbatim>\<open>src/services/agent-ia-actions.js\<close>. A JavaScript
  string is modelled as a \<^typ>\<open>string\<close> whose characters are the code units below 256; a
  JavaScript number is an \<^typ>\<open>int option\<close>, where \<open>None\<close> is \<^verbatim>\<open>NaN\<close> (only integers
  occur: minutes, hours, counts).
\<close>

definition is_lower_alnum :: "char \<Rightarrow> bool" where
  \<comment> \<open>the character class \<^verbatim>\<open>[a-z0-9]\<close>\<close>
  "is_lower_alnum c =
     (let n = (of_char c :: nat) in (97 \<le> n \<and> n \<le> 122) \<or> (48 \<le> n \<and> n \<le> 57))"

definition js_lower_char :: "char \<Rightarrow> char" where
  \<comment> \<open>\<^verbatim>\<open>toLowerCase\<close> on one code unit below 256: A-Z and the Latin-1 capitals\<close>
  "js_lower_char c =
     (let n = (of_char c :: nat)
      in if (65 \<le> n \<and> n \<le> 90) \<or> (192 \<le> n \<and> n \<le> 222 \<and> n \<noteq> 215)
         then char_of (n + 32) else c)"

definition toLowerCase :: "string \<Rightarrow> string" where
  "toLowerCase s = map js_lower_char s"

subsection \<open>transformToolName\<close>

definition replace_non_alnum :: "string \<Rightarrow> string" where
  \<comment> \<open>\<^verbatim>\<open>.replace(/[^a-z0-9]/g, '_')\<close>\<close>
  "replace_non_alnum s = map (\<lambda>c. if is_lower_alnum c then c else CHR ''_'') s"

fun collapse_underscores :: "string \<Rightarrow> string" where
  \<comment> \<open>\<^verbatim>\<open>.replace(/_+/g, '_')\<close>: every maximal run of underscores becomes one\<close>
  "collapse_underscores (c # d # cs) =
     (if c = CHR ''_'' \<and> d = CHR ''_'' then collapse_underscores (d # cs)
      else c # collapse_underscores (d # cs))"
| "collapse_underscores cs = cs"

definition strip_edge_underscores :: "string \<Rightarrow> string" where
  \<comment> \<open>\<^verbatim>\<open>.replace(/^_|_$/g, '')\<close>: one underscore at the start, then one at the end of
      what is left\<close>
  "strip_edge_underscores s =
     (let t = (case s of [] \<Rightarrow> [] | c # r \<Rightarrow> if c = CHR ''_'' then r else s)
      in if t \<noteq> [] \<and> last t = CHR ''_'' then butlast t else t)"

definition transformToolName :: "string \<Rightarrow> string" where
  \<comment> \<open>\<^verbatim>\<open>if (!name) return ''\<close>: the empty string is the falsy string\<close>
  "transformToolName name =
     (if name = [] then []
      else strip_edge_underscores (collapse_underscores (replace_non_alnum (toLowerCase name))))"

definition slug_char :: "char \<Rightarrow> bool" where
  \<comment> \<open>the character class \<^verbatim>\<open>[a-zA-Z0-9_-]\<close> of the documented tool-name pattern\<close>
  "slug_char c =
     (let n = (of_char c :: nat)
      in (97 \<le> n \<and> n \<le> 122) \<or> (65 \<le> n \<and> n \<le> 90) \<or> (48 \<le> n \<and> n \<le> 57)
         \<or> c = CHR ''_'' \<or> c = CHR ''-'')"

definition matches_slug_pattern :: "string \<Rightarrow> bool" where
  \<comment> \<open>\<^verbatim>\<open>^[a-zA-Z0-9_-]+$\<close>\<close>
  "matches_slug_pattern s = (s \<noteq> [] \<and> list_all slug_char s)"

fun no_double_underscore :: "string \<Rightarrow> bool" where
  "no_double_underscore (c # d # cs) =
     (\<not> (c = CHR ''_'' \<and> d = CHR ''_'') \<and> no_double_underscore (d # cs))"
| "no_double_underscore cs = True"

definition normal_slug :: "string \<Rightarrow> bool" where
  \<comment> \<open>the strings \<^const>\<open>transformToolName\<close> produces: lowercase letters, digits and single
      interior underscores\<close>
  "normal_slug s =
     (list_all (\<lambda>c. is_lower_alnum c \<or> c = CHR ''_'') s \<and> no_double_underscore s
      \<and> (s \<noteq> [] \<longrightarrow> hd s \<noteq> CHR ''_'' \<and> last s \<noteq> CHR ''_''))"

subsection \<open>Numbers, digits and splitting\<close>

text \<open>
  \<^verbatim>\<open>Number\<close> and \<^verbatim>\<open>parseInt\<close> are modelled on strings of decimal digits, which is what the
  time and duration columns of the store hold (\<^verbatim>\<open>HH:MM\<close>, \<^verbatim>\<open>HH:MM:SS\<close>); signs,
  fractions, exponents, radix prefixes and white space are outside the model.
\<close>

type_synonym jsnum = "int option"

definition is_digit :: "char \<Rightarrow> bool" where
  "is_digit c = (let n = (of_char c :: nat) in 48 \<le> n \<and> n \<le> 57)"

definition digit_val :: "char \<Rightarrow> nat" where
  "digit_val c = (of_char c :: nat) - 48"

definition digits_to_nat :: "string \<Rightarrow> nat" where
  "digits_to_nat s = foldl (\<lambda>a c. 10 * a + digit_val c) 0 s"

definition js_Number :: "string \<Rightarrow> jsnum" where
  \<comment> \<open>\<^verbatim>\<open>Number('')\<close> is 0; a non-numeric string is NaN\<close>
  "js_Number s =
     (if s = [] then Some 0
      else if list_all is_digit s then Some (int (digits_to_nat s)) else None)"

definition js_parseInt :: "string option \<Rightarrow> jsnum" where
  \<comment> \<open>the longest prefix of digits; \<^verbatim>\<open>parseInt(undefined)\<close> and no digit at all are NaN\<close>
  "js_parseInt x =
     (case x of None \<Rightarrow> None
      | Some s \<Rightarrow> (let ds = takeWhile is_digit s
                  in if ds = [] then None else Some (int (digits_to_nat ds))))"

definition num_add :: "jsnum \<Rightarrow> jsnum \<Rightarrow> jsnum" where
  "num_add a b = (case (a, b) of (Some x, Some y) \<Rightarrow> Some (x + y) | _ \<Rightarrow> None)"

definition num_mul :: "jsnum \<Rightarrow> jsnum \<Rightarrow> jsnum" where
  "num_mul a b = (case (a, b) of (Some x, Some y) \<Rightarrow> Some (x * y) | _ \<Rightarrow> None)"

definition num_le :: "jsnum \<Rightarrow> jsnum \<Rightarrow> bool" where
  \<comment> \<open>every comparison with NaN is false\<close>
  "num_le a b = (case (a, b) of (Some x, Some y) \<Rightarrow> x \<le> y | _ \<Rightarrow> False)"

definition num_gt :: "jsnum \<Rightarrow> jsnum \<Rightarrow> bool" where
  "num_gt a b = (case (a, b) of (Some x, Some y) \<Rightarrow> x > y | _ \<Rightarrow> False)"

function show_nat :: "nat \<Rightarrow> string" where
  "show_nat n = (if n < 10 then [char_of (48 + n)]
                 else show_nat (n div 10) @ [char_of (48 + n mod 10)])"
  by pat_completeness auto
termination
  by (relation "measure id") auto

declare show_nat.simps [simp del]

definition show_int :: "int \<Rightarrow> string" where
  "show_int i = (if i < 0 then CHR ''-'' # show_nat (nat (- i)) else show_nat (nat i))"

definition num_toString :: "jsnum \<Rightarrow> string" where
  "num_toString x = (case x of None \<Rightarrow> ''NaN'' | Some i \<Rightarrow> show_int i)"

definition padStart2 :: "string \<Rightarrow> string" where
  \<comment> \<open>\<^verbatim>\<open>.padStart(2, '0')\<close>\<close>
  "padStart2 s = replicate (2 - length s) CHR ''0'' @ s"

definition js_rem :: "int \<Rightarrow> int \<Rightarrow> int" where
  \<comment> \<open>the remainder operator: the sign follows the dividend\<close>
  "js_rem a b = (if a < 0 then - ((- a) mod b) else a mod b)"

fun split_on :: "char \<Rightarrow> string \<Rightarrow> string list" where
  \<comment> \<open>\<^verbatim>\<open>s.split(c)\<close> for a one-character separator\<close>
  "split_on c [] = [[]]"
| "split_on c (x # xs) =
     (if x = c then [] # split_on c xs
      else (case split_on c xs of [] \<Rightarrow> [[x]] | p # ps \<Rightarrow> (x # p) # ps))"

fun join_with :: "string \<Rightarrow> string list \<Rightarrow> string" where
  \<comment> \<open>\<^verbatim>\<open>xs.join(sep)\<close>\<close>
  "join_with sep [] = []"
| "join_with sep [x] = x"
| "join_with sep (x # y # ys) = x @ sep @ join_with sep (y # ys)"

definition nth_opt :: "'a list \<Rightarrow> nat \<Rightarrow> 'a option" where
  \<comment> \<open>array indexing: out of range is \<^verbatim>\<open>undefined\<close>\<close>
  "nth_opt xs i = (if i < length xs then Some (xs ! i) else None)"

definition timeToMinutes :: "string option \<Rightarrow> jsnum" where
  \<comment> \<open>\<^verbatim>\<open>if (!timeStr) return 0\<close>; a missing minutes part makes the sum NaN\<close>
  "timeToMinutes timeStr =
     (case timeStr of None \<Rightarrow> Some 0
      | Some s \<Rightarrow>
          if s = [] then Some 0
          else (let parts = map js_Number (split_on CHR '':'' s);
                    hours = (case nth_opt parts 0 of None \<Rightarrow> None | Some h \<Rightarrow> h);
                    minutes = (case nth_opt parts 1 of None \<Rightarrow> None | Some m \<Rightarrow> m)
                in num_add (num_mul hours (Some 60)) minutes))"

definition minutesToTime :: "int \<Rightarrow> string" where
  "minutesToTime minutes =
     (let hours = minutes div 60; mins = js_rem minutes 60
      in padStart2 (show_int hours) @ '':'' @ padStart2 (show_int mins))"

subsection \<open>Values and objects\<close>

text \<open>
  Rows, arguments and name maps are JSON data and plain objects. An object is an
  association list of its own properties in property order. A plain object inherits
  from \<^verbatim>\<open>Object.prototype\<close>: a read of a name it does not own finds the built-in functions
  there (\<^verbatim>\<open>constructor\<close>, \<^verbatim>\<open>toString\<close>, ...) and the accessor \<^verbatim>\<open>__proto__\<close>, which reads
  and replaces the prototype. Rows and arguments are objects: a property read on a
  string, a number, a boolean, an array or a function gives \<^verbatim>\<open>undefined\<close> in the model,
  and an array or a function that has become a prototype passes on only what it
  inherits from \<^verbatim>\<open>Object.prototype\<close>.
\<close>

datatype jsval =
    JUndefined
  | JNull
  | JBool bool
  | JNum int
  | JStr string
  | JObj "(string \<times> jsval) list"
  | JArr "jsval list"
  | JFun string
  | JProto

text \<open>
  \<open>JFun n\<close> is the built-in function named \<open>n\<close> and \<open>JProto\<close> is the object
  \<^verbatim>\<open>Object.prototype\<close>.
\<close>

type_synonym jsobj = "(string \<times> jsval) list"

fun truthy :: "jsval \<Rightarrow> bool" where
  "truthy JUndefined = False"
| "truthy JNull = False"
| "truthy (JBool b) = b"
| "truthy (JNum n) = (n \<noteq> 0)"
| "truthy (JStr s) = (s \<noteq> [])"
| "truthy (JObj _) = True"
| "truthy (JArr _) = True"
| "truthy (JFun _) = True"
| "truthy JProto = True"

fun is_object :: "jsval \<Rightarrow> bool" where
  \<comment> \<open>the values that can be a prototype\<close>
  "is_object (JObj _) = True"
| "is_object (JArr _) = True"
| "is_object (JFun _) = True"
| "is_object JProto = True"
| "is_object _ = False"

definition object_prototype :: "string \<Rightarrow> jsval" where
  \<comment> \<open>the data properties of \<^verbatim>\<open>Object.prototype\<close>\<close>
  "object_prototype k =
     (if k = ''constructor'' then JFun ''Object''
      else if k \<in> set [''toString'', ''toLocaleString'', ''valueOf'', ''hasOwnProperty'',
                        ''isPrototypeOf'', ''propertyIsEnumerable'', ''__defineGetter__'',
                        ''__defineSetter__'', ''__lookupGetter__'', ''__lookupSetter__'']
      then JFun k else JUndefined)"

fun via_proto :: "jsval \<Rightarrow> string \<Rightarrow> jsval" where
  \<comment> \<open>a read that did not find an own property goes on at the prototype \<open>p\<close>; the accessor
      \<^verbatim>\<open>__proto__\<close> gives the prototype itself\<close>
  "via_proto JNull k = JUndefined"
| "via_proto (JObj ob) k =
     (case map_of ob k of
        Some v \<Rightarrow> v
      | None \<Rightarrow> if k = ''__proto__'' then JObj ob else object_prototype k)"
| "via_proto p k = (if k = ''__proto__'' then p else object_prototype k)"

definition obj_get :: "jsobj \<Rightarrow> string \<Rightarrow> jsval" where
  \<comment> \<open>a read of an own property; used at the fixed property names of the arguments object,
      none of which \<^verbatim>\<open>Object.prototype\<close> has\<close>
  "obj_get ob k = (case map_of ob k of None \<Rightarrow> JUndefined | Some v \<Rightarrow> v)"

fun js_get :: "jsval \<Rightarrow> string \<Rightarrow> jsval" where
  \<comment> \<open>\<^verbatim>\<open>v[k]\<close> on a truthy value\<close>
  "js_get (JObj ob) k = (case map_of ob k of Some v \<Rightarrow> v | None \<Rightarrow> via_proto JProto k)"
| "js_get JProto k = (if k = ''__proto__'' then JNull else object_prototype k)"
| "js_get _ k = JUndefined"

fun str_of :: "jsval \<Rightarrow> string" where
  \<comment> \<open>the string a template literal or a query filter makes of a value (the elements of
      an array are not rendered)\<close>
  "str_of JUndefined = ''undefined''"
| "str_of JNull = ''null''"
| "str_of (JBool b) = (if b then ''true'' else ''false'')"
| "str_of (JNum n) = show_int n"
| "str_of (JStr s) = s"
| "str_of (JObj _) = ''[object Object]''"
| "str_of (JArr _) = []"
| "str_of (JFun n) = ''function '' @ n @ ''() { [native code] }''"
| "str_of JProto = ''[object Object]''"

fun col_of :: "jsval \<Rightarrow> string option" where
  \<comment> \<open>the value a text column takes on insert: a missing or null property is NULL\<close>
  "col_of JUndefined = None"
| "col_of JNull = None"
| "col_of v = Some (str_of v)"

type_synonym exn = string

subsection \<open>Name maps\<close>

record name_map =
  entries :: jsobj
  proto :: jsval

text \<open>
  A name map is the object \<^verbatim>\<open>const map = {}\<close> after some assignments \<^verbatim>\<open>map[k] = v\<close>: its own
  properties and its prototype, which is \<^verbatim>\<open>Object.prototype\<close> until an assignment to
  \<^verbatim>\<open>__proto__\<close> replaces it.
\<close>

definition empty_map :: name_map where
  "empty_map = \<lparr>entries = [], proto = JProto\<rparr>"

definition has_accessor :: "jsval \<Rightarrow> bool" where
  \<comment> \<open>whether a write to \<^verbatim>\<open>__proto__\<close> reaches the accessor of \<^verbatim>\<open>Object.prototype\<close> along
      the prototype chain\<close>
  "has_accessor p =
     (case p of JNull \<Rightarrow> False | JObj ob \<Rightarrow> map_of ob ''__proto__'' = None | _ \<Rightarrow> True)"

definition map_set :: "name_map \<Rightarrow> string \<Rightarrow> jsval \<Rightarrow> name_map" where
  \<comment> \<open>\<^verbatim>\<open>map[k] = v\<close>: the accessor \<^verbatim>\<open>__proto__\<close> takes an object or null as the new prototype
      and ignores every other value; any other name becomes an own property\<close>
  "map_set m k v =
     (if k = ''__proto__'' \<and> map_of (entries m) k = None \<and> has_accessor (proto m)
      then (if is_object v \<or> v = JNull then m\<lparr>proto := v\<rparr> else m)
      else m\<lparr>entries := AList.update k v (entries m)\<rparr>)"

definition map_get :: "name_map \<Rightarrow> string \<Rightarrow> jsval" where
  \<comment> \<open>\<^verbatim>\<open>map[k]\<close>: an own property, else what the prototype chain has\<close>
  "map_get m k = (case map_of (entries m) k of Some v \<Rightarrow> v | None \<Rightarrow> via_proto (proto m) k)"

subsection \<open>createNameToIdMap\<close>

fun walk_path :: "jsval \<Rightarrow> string list \<Rightarrow> jsval" where
  \<comment> \<open>\<^verbatim>\<open>for (const key of keys) { if (!nested) break; nested = nested[key]; }\<close>\<close>
  "walk_path nested [] = nested"
| "walk_path nested (key # keys) =
     (if \<not> truthy nested then nested else walk_path (js_get nested key) keys)"

definition resolve_field :: "jsval \<Rightarrow> string \<Rightarrow> jsval" where
  \<comment> \<open>\<^verbatim>\<open>item[key]\<close>, and the nested traversal when that is falsy and the key has a dot\<close>
  "resolve_field item key =
     (let v = js_get item key
      in if \<not> truthy v \<and> CHR ''.'' \<in> set key then walk_path item (split_on CHR ''.'' key)
         else v)"

definition add_item :: "string \<Rightarrow> string \<Rightarrow> name_map \<Rightarrow> jsval \<Rightarrow> exn + name_map" where
  \<comment> \<open>one turn of the loop; \<^verbatim>\<open>name.toLowerCase()\<close> raises on a truthy non-string\<close>
  "add_item nameKey idKey m item =
     (if \<not> truthy item then Inr m
      else (let name = resolve_field item nameKey; ident = resolve_field item idKey
            in if truthy name \<and> truthy ident
               then (case name of
                       JStr n \<Rightarrow> Inr (map_set m (toLowerCase n) ident)
                     | _ \<Rightarrow> Inl ''name.toLowerCase is not a function'')
               else Inr m))"

fun add_items :: "string \<Rightarrow> string \<Rightarrow> name_map \<Rightarrow> jsval list \<Rightarrow> exn + name_map" where
  "add_items nameKey idKey m [] = Inr m"
| "add_items nameKey idKey m (item # items) =
     (case add_item nameKey idKey m item of
        Inl e \<Rightarrow> Inl e
      | Inr m' \<Rightarrow> add_items nameKey idKey m' items)"

definition createNameToIdMap :: "jsval \<Rightarrow> string \<Rightarrow> string \<Rightarrow> exn + name_map" where
  \<comment> \<open>\<^verbatim>\<open>if (!items || !Array.isArray(items)) return map\<close>\<close>
  "createNameToIdMap items nameKey idKey =
     (case items of JArr xs \<Rightarrow> add_items nameKey idKey empty_map xs | _ \<Rightarrow> Inr empty_map)"

subsection \<open>The name cache\<close>

text \<open>
  \<^verbatim>\<open>nameToIdCache\<close> is a module-level object; the model passes it explicitly, with the
  clock reading \<^verbatim>\<open>Date.now()\<close> as an argument. A bucket of services or providers is an
  object keyed by schedule identifier; \<^verbatim>\<open>setCachedMap\<close> without a sub-key replaces the
  whole bucket by one entry, which is the \<open>whole\<close> field. Sub-keys are schedule
  identifiers: a sub-key that is itself \<^verbatim>\<open>data\<close> or \<^verbatim>\<open>timestamp\<close> is outside the model,
  and so is an organization or schedule identifier that names a property of
  \<^verbatim>\<open>Object.prototype\<close>. The resource type is one of the four the module uses.
\<close>

datatype rtype = Services | Providers | Teams | Flows

record cache_entry =
  data :: name_map
  timestamp :: nat

record bucket =
  whole :: "cache_entry option"
  by_key :: "string \<rightharpoonup> cache_entry"

record org_cache =
  services :: "bucket option"
  providers :: "bucket option"
  teams :: "cache_entry option"
  flows :: "cache_entry option"

type_synonym cache = "string \<rightharpoonup> org_cache"

definition CACHE_EXPIRATION :: int where
  "CACHE_EXPIRATION = 60 * 60 * 1000"

definition isCacheValid :: "nat \<Rightarrow> nat \<Rightarrow> bool" where
  \<comment> \<open>\<^verbatim>\<open>timestamp && (Date.now() - timestamp) < CACHE_EXPIRATION\<close>\<close>
  "isCacheValid ts now = (ts \<noteq> 0 \<and> int now - int ts < CACHE_EXPIRATION)"

definition key_given :: "string option \<Rightarrow> bool" where
  \<comment> \<open>a sub-key is truthy: neither omitted (null) nor the empty string\<close>
  "key_given subKey = (case subKey of None \<Rightarrow> False | Some k \<Rightarrow> k \<noteq> [])"

definition per_schedule :: "rtype \<Rightarrow> bool" where
  "per_schedule ty = (ty = Services \<or> ty = Providers)"

definition bucket_of :: "org_cache \<Rightarrow> rtype \<Rightarrow> bucket option" where
  "bucket_of oc ty = (if ty = Services then services oc else providers oc)"

definition entry_of :: "org_cache \<Rightarrow> rtype \<Rightarrow> cache_entry option" where
  \<comment> \<open>\<^verbatim>\<open>cache[type]\<close> read as an entry\<close>
  "entry_of oc ty =
     (case ty of Teams \<Rightarrow> teams oc | Flows \<Rightarrow> flows oc
      | _ \<Rightarrow> (case bucket_of oc ty of None \<Rightarrow> None | Some b \<Rightarrow> whole b))"

definition read_entry :: "cache_entry \<Rightarrow> nat \<Rightarrow> name_map option" where
  "read_entry e now = (if isCacheValid (timestamp e) now then Some (data e) else None)"

definition getCachedMap :: "cache \<Rightarrow> string \<Rightarrow> rtype \<Rightarrow> string option \<Rightarrow> nat \<Rightarrow> name_map option" where
  "getCachedMap c organizationId ty subKey now =
     (case c organizationId of
        None \<Rightarrow> None
      | Some oc \<Rightarrow>
          if per_schedule ty \<and> \<not> key_given subKey then None
          else if per_schedule ty then
            (case bucket_of oc ty of
               None \<Rightarrow> None
             | Some b \<Rightarrow> (case by_key b (the subKey) of
                            None \<Rightarrow> None
                          | Some e \<Rightarrow> read_entry e now))
          else (case entry_of oc ty of None \<Rightarrow> None | Some e \<Rightarrow> read_entry e now))"

definition empty_bucket :: bucket where
  "empty_bucket = \<lparr>whole = None, by_key = Map.empty\<rparr>"

definition put_bucket :: "org_cache \<Rightarrow> rtype \<Rightarrow> bucket \<Rightarrow> org_cache" where
  "put_bucket oc ty b = (if ty = Services then oc\<lparr>services := Some b\<rparr> else oc\<lparr>providers := Some b\<rparr>)"

definition put_entry :: "org_cache \<Rightarrow> rtype \<Rightarrow> cache_entry \<Rightarrow> org_cache" where
  \<comment> \<open>\<^verbatim>\<open>nameToIdCache[organizationId][type] = { data, timestamp }\<close>\<close>
  "put_entry oc ty e =
     (case ty of Teams \<Rightarrow> oc\<lparr>teams := Some e\<rparr> | Flows \<Rightarrow> oc\<lparr>flows := Some e\<rparr>
      | _ \<Rightarrow> put_bucket oc ty \<lparr>whole = Some e, by_key = Map.empty\<rparr>)"

definition setCachedMap :: "cache \<Rightarrow> string \<Rightarrow> rtype \<Rightarrow> name_map \<Rightarrow> string option \<Rightarrow> nat \<Rightarrow> cache" where
  "setCachedMap c organizationId ty m subKey now =
     (if organizationId = [] then c
      else (let oc = (case c organizationId of
                        None \<Rightarrow> \<lparr>services = Some empty_bucket, providers = Some empty_bucket,
                                 teams = None, flows = None\<rparr>
                      | Some oc \<Rightarrow> oc);
                e = \<lparr>data = m, timestamp = now\<rparr>
            in if per_schedule ty \<and> key_given subKey then
                 (let b = (case bucket_of oc ty of None \<Rightarrow> empty_bucket | Some b \<Rightarrow> b)
                  in c(organizationId \<mapsto> put_bucket oc ty (b\<lparr>by_key := (by_key b)(the subKey \<mapsto> e)\<rparr>)))
               else c(organizationId \<mapsto> put_entry oc ty e)))"

section \<open>The store and its queries\<close>

text \<open>
  The relational store is reached through a query client whose calls resolve to an object
  with \<^verbatim>\<open>data\<close> and \<^verbatim>\<open>error\<close>; a call may also reject. Each call site of the module
  has a name, and the environment says how the call at that site goes: it answers from
  the tables, it resolves with an error (\<^verbatim>\<open>data\<close> is null), or it throws.
\<close>

record schedule_row =
  sched_id :: string
  sched_title :: "string option"
  sched_timezone :: "string option"
  sched_org :: string
  sched_status :: string

record service_row =
  svc_id :: string
  svc_title :: string
  svc_duration :: "string option"
  svc_by_arrival :: bool
  svc_schedule :: string
  svc_status :: string

record provider_row =
  prov_id :: string
  prov_profile_id :: string
  prov_schedule :: string
  prov_status :: string
  prov_profile :: "(string \<times> string option) option"

record availability_row =
  av_provider :: string
  av_day :: nat
  av_start :: "string option"
  av_end :: "string option"

record appointment_row =
  apt_id :: string
  apt_schedule :: string
  apt_customer :: string
  apt_provider :: "string option"
  apt_service :: "string option"
  apt_date :: "string option"
  apt_start :: "string option"
  apt_end :: "string option"
  apt_status :: string
  apt_notes :: string
  apt_chat :: string
  apt_metadata :: "(string \<times> string) list"

record team_row =
  team_id :: string
  team_name :: string
  team_org :: string

record flow_row =
  flow_id :: string
  flow_name :: string
  flow_org :: string
  flow_active :: bool

record store =
  tbl_schedules :: "schedule_row list"
  tbl_services :: "service_row list"
  tbl_providers :: "provider_row list"
  tbl_availability :: "availability_row list"
  tbl_appointments :: "appointment_row list"
  tbl_teams :: "team_row list"
  tbl_flows :: "flow_row list"

datatype qsite =
    Q_dispatch_schedule | Q_dispatch_services | Q_dispatch_providers
  | Q_dispatch_teams | Q_dispatch_flows
  | Q_action_schedule | Q_action_service
  | Q_check_schedule | Q_check_service
  | Q_slots_providers | Q_slots_availability | Q_slots_appointments
  | Q_create_service | Q_create_provider | Q_create_insert
  | Q_lookup_appointments
  | Q_cancel_fetch | Q_cancel_update | Q_cancel_search | Q_cancel_row string
  | Q_gen_schedule | Q_gen_services | Q_gen_providers | Q_gen_flows

datatype qmode = Answers | Fails string | Throws string

datatype 'a outcome = Data 'a | Failed string | Thrown string

record env =
  q_mode :: "qsite \<Rightarrow> qmode"
  getDay :: "string \<Rightarrow> nat option"
  toLocaleDate :: "string \<Rightarrow> string"
  toISOString :: string
  fresh_id :: string
  clock :: nat

text \<open>
  \<open>getDay\<close> is \<^verbatim>\<open>new Date(date + 'T12:00:00Z').getDay()\<close> in the server's time zone (NaN is
  \<open>None\<close>), \<open>toLocaleDate\<close> is \<^verbatim>\<open>new Date(date).toLocaleDateString('pt-BR')\<close>,
  \<open>toISOString\<close> and \<open>clock\<close> are the current time (one reading of \<^verbatim>\<open>Date.now()\<close> for
  the whole call), \<open>fresh_id\<close> the identifier the store gives an inserted row.
\<close>

definition run_query :: "env \<Rightarrow> qsite \<Rightarrow> 'a \<Rightarrow> 'a outcome" where
  "run_query e site rows =
     (case q_mode e site of Answers \<Rightarrow> Data rows | Fails m \<Rightarrow> Failed m | Throws m \<Rightarrow> Thrown m)"

definition single :: "'a list outcome \<Rightarrow> 'a outcome" where
  \<comment> \<open>\<^verbatim>\<open>.single()\<close>: anything but exactly one row is an error\<close>
  "single r =
     (case r of
        Data [x] \<Rightarrow> Data x
      | Data _ \<Rightarrow> Failed ''JSON object requested, multiple (or no) rows returned''
      | Failed m \<Rightarrow> Failed m
      | Thrown m \<Rightarrow> Thrown m)"

section \<open>Availability\<close>

definition isOccupied :: "appointment_row list option \<Rightarrow> int \<Rightarrow> bool" where
  \<comment> \<open>\<^verbatim>\<open>existingAppointments?.some(...)\<close>: on null the result is undefined, which is falsy\<close>
  "isOccupied existingAppointments slot =
     (case existingAppointments of
        None \<Rightarrow> False
      | Some apts \<Rightarrow>
          list_ex (\<lambda>apt. num_le (timeToMinutes (apt_start apt)) (Some slot)
                         \<and> num_gt (timeToMinutes (apt_end apt)) (Some slot)) apts)"

function slot_loop :: "appointment_row list option \<Rightarrow> int \<Rightarrow> int \<Rightarrow> string list \<Rightarrow> string list" where
  \<comment> \<open>\<^verbatim>\<open>for (let slot = startMinutes; slot <= endMinutes - duration; slot += slotInterval)\<close>\<close>
  "slot_loop existing slot limit allSlots =
     (if slot \<le> limit
      then slot_loop existing (slot + 30) limit
             (if \<not> isOccupied existing slot \<and> minutesToTime slot \<notin> set allSlots
              then allSlots @ [minutesToTime slot] else allSlots)
      else allSlots)"
  by pat_completeness auto
termination
  by (relation "measure (\<lambda>(existing, slot, limit, allSlots). nat (limit + 1 - slot))") auto

declare slot_loop.simps [simp del]

definition window_slots :: "appointment_row list option \<Rightarrow> jsnum \<Rightarrow> string list \<Rightarrow> availability_row \<Rightarrow> string list" where
  \<comment> \<open>the body of \<^verbatim>\<open>availabilities.forEach\<close>; the loop condition is false on NaN\<close>
  "window_slots existing duration allSlots availability =
     (case (timeToMinutes (av_start availability), timeToMinutes (av_end availability), duration) of
        (Some startMinutes, Some endMinutes, Some d) \<Rightarrow>
          slot_loop existing startMinutes (endMinutes - d) allSlots
      | _ \<Rightarrow> allSlots)"

definition active_providers :: "store \<Rightarrow> string \<Rightarrow> provider_row list" where
  "active_providers st scheduleId =
     [p \<leftarrow> tbl_providers st. prov_schedule p = scheduleId \<and> prov_status p = ''active'']"

definition day_windows :: "env \<Rightarrow> store \<Rightarrow> provider_row list \<Rightarrow> jsval \<Rightarrow> availability_row list" where
  "day_windows e st ps date =
     [a \<leftarrow> tbl_availability st.
        av_provider a \<in> set (map prov_id ps) \<and> Some (av_day a) = getDay e (str_of date)]"

definition booked :: "store \<Rightarrow> string \<Rightarrow> jsval \<Rightarrow> appointment_row list" where
  \<comment> \<open>the non-canceled appointments of the schedule on the date\<close>
  "booked st scheduleId date =
     [a \<leftarrow> tbl_appointments st.
        apt_schedule a = scheduleId \<and> apt_date a = Some (str_of date) \<and> apt_status a \<noteq> ''canceled'']"

definition getAvailableSlots_try ::
  "env \<Rightarrow> store \<Rightarrow> string \<Rightarrow> jsval \<Rightarrow> jsval \<Rightarrow> jsnum \<Rightarrow> bool \<Rightarrow> exn + string list" where
  \<comment> \<open>the \<^verbatim>\<open>try\<close> block of \<^verbatim>\<open>getAvailableSlots\<close>\<close>
  "getAvailableSlots_try e st scheduleId date serviceId duration isByArrivalTime =
     (case run_query e Q_slots_providers (active_providers st scheduleId) of
        Thrown m \<Rightarrow> Inl m
      | Failed _ \<Rightarrow> Inr []
      | Data ps \<Rightarrow>
          if ps = [] then Inr []
          else (case run_query e Q_slots_availability (day_windows e st ps date) of
                  Thrown m \<Rightarrow> Inl m
                | Failed _ \<Rightarrow> Inr []
                | Data availabilities \<Rightarrow>
                    if availabilities = [] then Inr []
                    else (case run_query e Q_slots_appointments (booked st scheduleId date) of
                            Thrown m \<Rightarrow> Inl m
                          | Failed _ \<Rightarrow>
                              Inr (sort (foldl (window_slots None duration) [] availabilities))
                          | Data existingAppointments \<Rightarrow>
                              Inr (sort (foldl (window_slots (Some existingAppointments) duration)
                                           [] availabilities)))))"

definition getAvailableSlots ::
  "env \<Rightarrow> store \<Rightarrow> string \<Rightarrow> jsval \<Rightarrow> jsval \<Rightarrow> jsnum \<Rightarrow> bool \<Rightarrow> string list" where
  \<comment> \<open>\<^verbatim>\<open>catch (error) { ...; return []; }\<close>\<close>
  "getAvailableSlots e st scheduleId date serviceId duration isByArrivalTime =
     (case getAvailableSlots_try e st scheduleId date serviceId duration isByArrivalTime of
        Inl m \<Rightarrow> []
      | Inr slots \<Rightarrow> slots)"

abbreviation free_slot_times :: "appointment_row list option \<Rightarrow> string set" where
  "free_slot_times existing \<equiv>
     {minutesToTime slot | slot. 0 \<le> slot \<and> \<not> isOccupied existing slot}"

record op_result =
  success :: bool
  message :: string
  available :: "bool option"
  available_times :: "string list option"
  extra :: jsobj

text \<open>
  The four scheduling operations return an object with \<^verbatim>\<open>success\<close> and \<^verbatim>\<open>message\<close>;
  \<^verbatim>\<open>available\<close> and \<^verbatim>\<open>available_times\<close> are absent (\<open>None\<close>) on the objects that do not
  set them, and the remaining properties are kept in \<open>extra\<close>.
\<close>

definition failure :: "string \<Rightarrow> op_result" where
  "failure m = \<lparr>success = False, message = m, available = None, available_times = None, extra = []\<rparr>"

definition duration_minutes :: "string option \<Rightarrow> jsnum option" where
  \<comment> \<open>\<^verbatim>\<open>parseInt(parts[0]) * 60 + parseInt(parts[1])\<close>; \<open>None\<close> when
      \<^verbatim>\<open>duration.toString()\<close> raises on a null duration\<close>
  "duration_minutes d =
     (case d of
        None \<Rightarrow> None
      | Some s \<Rightarrow> (let durationParts = split_on CHR '':'' s
                  in Some (num_add (num_mul (js_parseInt (nth_opt durationParts 0)) (Some 60))
                                   (js_parseInt (nth_opt durationParts 1)))))"

definition slots_includes :: "string list \<Rightarrow> jsval \<Rightarrow> bool" where
  \<comment> \<open>\<^verbatim>\<open>availableSlots.includes(time)\<close>\<close>
  "slots_includes slots time = (case time of JStr t \<Rightarrow> t \<in> set slots | _ \<Rightarrow> False)"

definition availability_answer :: "env \<Rightarrow> jsval \<Rightarrow> jsval \<Rightarrow> string list \<Rightarrow> op_result" where
  \<comment> \<open>the two success objects of \<^verbatim>\<open>checkAvailability\<close>\<close>
  "availability_answer e date time availableSlots =
     (let formattedDate = toLocaleDate e (str_of date)
      in if \<not> truthy time then
           \<lparr>success = True,
            message = (if availableSlots \<noteq> []
                       then show_nat (length availableSlots) @ '' time slots available on '' @ formattedDate
                       else ''No available slots on '' @ formattedDate),
            available = Some (availableSlots \<noteq> []),
            available_times = Some availableSlots,
            extra = [(''date'', date), (''formatted_date'', JStr formattedDate)]\<rparr>
         else
           \<lparr>success = True,
            message = (if slots_includes availableSlots time
                       then ''Slot available on '' @ formattedDate @ '' at '' @ str_of time
                       else ''No availability on '' @ formattedDate @ '' at '' @ str_of time),
            available = Some (slots_includes availableSlots time),
            available_times = Some availableSlots,
            extra = [(''date'', date), (''formatted_date'', JStr formattedDate),
                     (''requested_time'', time)]\<rparr>)"

definition service_by_id :: "store \<Rightarrow> jsval \<Rightarrow> service_row list" where
  "service_by_id st serviceId = [s \<leftarrow> tbl_services st. svc_id s = str_of serviceId]"

definition schedule_by_id :: "store \<Rightarrow> string \<Rightarrow> schedule_row list" where
  "schedule_by_id st scheduleId = [s \<leftarrow> tbl_schedules st. sched_id s = scheduleId]"

definition service_settings :: "env \<Rightarrow> store \<Rightarrow> jsval \<Rightarrow> exn + jsnum \<times> bool" where
  \<comment> \<open>\<^verbatim>\<open>serviceDuration\<close> and \<^verbatim>\<open>isByArrivalTime\<close>: 30 minutes and false unless the service is
      found; the duration stays 30 when parsing it raises\<close>
  "service_settings e st serviceId =
     (if truthy serviceId
      then (case single (run_query e Q_check_service (service_by_id st serviceId)) of
              Thrown m \<Rightarrow> Inl m
            | Failed _ \<Rightarrow> Inr (Some 30, False)
            | Data service \<Rightarrow>
                Inr (case duration_minutes (svc_duration service) of
                       None \<Rightarrow> Some 30 | Some d \<Rightarrow> d,
                     svc_by_arrival service))
      else Inr (Some 30, False))"

definition checkAvailability_try ::
  "env \<Rightarrow> store \<Rightarrow> string \<Rightarrow> jsval \<Rightarrow> jsval \<Rightarrow> jsval \<Rightarrow> string \<Rightarrow> exn + op_result" where
  "checkAvailability_try e st scheduleId date time serviceId timezone =
     (case single (run_query e Q_check_schedule (schedule_by_id st scheduleId)) of
        Thrown m \<Rightarrow> Inl m
      | Failed _ \<Rightarrow> Inr (failure (''Schedule not found with ID '' @ scheduleId))
      | Data schedule \<Rightarrow>
          (case service_settings e st serviceId of
             Inl m \<Rightarrow> Inl m
           | Inr (serviceDuration, isByArrivalTime) \<Rightarrow>
               Inr (availability_answer e date time
                      (getAvailableSlots e st scheduleId date serviceId serviceDuration
                         isByArrivalTime))))"

definition checkAvailability ::
  "env \<Rightarrow> store \<Rightarrow> string \<Rightarrow> jsval \<Rightarrow> jsval \<Rightarrow> jsval \<Rightarrow> string \<Rightarrow> op_result" where
  "checkAvailability e st scheduleId date time serviceId timezone =
     (case checkAvailability_try e st scheduleId date time serviceId timezone of
        Inl m \<Rightarrow> failure (''Error checking availability: '' @ m)
      | Inr r \<Rightarrow> r)"

section \<open>Appointments\<close>

record session =
  organization_id :: string
  customer_id :: string
  chat_id :: string

definition opt_js :: "string option \<Rightarrow> jsval" where
  \<comment> \<open>a nullable column as the client returns it\<close>
  "opt_js x = (case x of None \<Rightarrow> JNull | Some s \<Rightarrow> JStr s)"

definition end_time_of :: "string option \<Rightarrow> jsval \<Rightarrow> jsval" where
  \<comment> \<open>the inner \<^verbatim>\<open>try\<close> of \<^verbatim>\<open>createAppointment\<close>: \<^verbatim>\<open>endTime\<close> stays \<^verbatim>\<open>time\<close> when
      \<^verbatim>\<open>duration.toString()\<close> or \<^verbatim>\<open>time.split\<close> raises\<close>
  "end_time_of duration time =
     (case duration_minutes duration of
        None \<Rightarrow> time
      | Some durationMinutes \<Rightarrow>
          (case time of
             JStr t \<Rightarrow>
               (let parts = map js_Number (split_on CHR '':'' t);
                    hours = (case nth_opt parts 0 of None \<Rightarrow> None | Some h \<Rightarrow> h);
                    minutes = (case nth_opt parts 1 of None \<Rightarrow> None | Some m \<Rightarrow> m);
                    startMinutes = num_add (num_mul hours (Some 60)) minutes;
                    endMinutes = num_add startMinutes durationMinutes;
                    endHours = map_option (\<lambda>m. m div 60) endMinutes;
                    endMins = map_option (\<lambda>m. js_rem m 60) endMinutes
                in JStr (padStart2 (num_toString endHours) @ '':'' @ padStart2 (num_toString endMins)))
           | _ \<Rightarrow> time))"

definition new_appointment ::
  "env \<Rightarrow> string \<Rightarrow> string \<Rightarrow> jsval \<Rightarrow> jsval \<Rightarrow> jsval \<Rightarrow> jsval \<Rightarrow> jsval \<Rightarrow> jsval \<Rightarrow> session
     \<Rightarrow> appointment_row" where
  "new_appointment e scheduleId customerId date time endTime serviceId notes selectedProviderId sess =
     \<lparr>apt_id = fresh_id e, apt_schedule = scheduleId, apt_customer = customerId,
      apt_provider = col_of selectedProviderId, apt_service = col_of serviceId,
      apt_date = col_of date, apt_start = col_of time, apt_end = col_of endTime,
      apt_status = ''scheduled'',
      apt_notes = (if truthy notes then str_of notes else []),
      apt_chat = chat_id sess,
      apt_metadata = [(''created_via'', ''agent_ia_action''), (''creation_date'', toISOString e)]\<rparr>"

definition createAppointment_try ::
  "env \<Rightarrow> store \<Rightarrow> string \<Rightarrow> string \<Rightarrow> jsval \<Rightarrow> jsval \<Rightarrow> jsval \<Rightarrow> jsval \<Rightarrow> jsval \<Rightarrow> string
     \<Rightarrow> session \<Rightarrow> exn + op_result \<times> store" where
  "createAppointment_try e st scheduleId customerId date time serviceId notes providerId timezone sess =
     (let availabilityCheck = checkAvailability e st scheduleId date time serviceId timezone
      in if available availabilityCheck \<noteq> Some True then
           (case available_times availabilityCheck of
              None \<Rightarrow> Inl ''Cannot read properties of undefined (reading 'join')''
            | Some alternatives \<Rightarrow>
                Inr (failure (''The requested time slot is not available. Available times: ''
                              @ join_with '', '' alternatives), st))
         else
           (case single (run_query e Q_create_service (service_by_id st serviceId)) of
              Thrown m \<Rightarrow> Inl m
            | Failed _ \<Rightarrow> Inr (failure (''Service not found with ID '' @ str_of serviceId), st)
            | Data serviceData \<Rightarrow>
                (let endTime = end_time_of (svc_duration serviceData) time
                 in case (if truthy providerId then Inr providerId
                          else (case single (run_query e Q_create_provider
                                               (take 1 (active_providers st scheduleId))) of
                                  Thrown m \<Rightarrow> Inl m
                                | Failed _ \<Rightarrow> Inr providerId
                                | Data availableProvider \<Rightarrow> Inr (JStr (prov_profile_id availableProvider)))) of
                      Inl m \<Rightarrow> Inl m
                    | Inr selectedProviderId \<Rightarrow>
                        (let row = new_appointment e scheduleId customerId date time endTime
                                     serviceId notes selectedProviderId sess
                         in case run_query e Q_create_insert row of
                              Thrown m \<Rightarrow> Inl m
                            | Failed m \<Rightarrow> Inl m
                            | Data appointment \<Rightarrow>
                                (let formattedDate = toLocaleDate e (str_of date)
                                 in Inr (\<lparr>success = True,
                                          message = ''Appointment successfully created for ''
                                                    @ formattedDate @ '' at '' @ str_of time,
                                          available = None, available_times = None,
                                          extra = [(''appointment_id'', JStr (apt_id appointment)),
                                                   (''date'', date),
                                                   (''formatted_date'', JStr formattedDate),
                                                   (''time'', time), (''end_time'', endTime),
                                                   (''service_id'', serviceId),
                                                   (''service_name'', JStr (svc_title serviceData))]\<rparr>,
                                         st\<lparr>tbl_appointments := tbl_appointments st @ [appointment]\<rparr>))))))"

definition createAppointment ::
  "env \<Rightarrow> store \<Rightarrow> string \<Rightarrow> string \<Rightarrow> jsval \<Rightarrow> jsval \<Rightarrow> jsval \<Rightarrow> jsval \<Rightarrow> jsval \<Rightarrow> string
     \<Rightarrow> session \<Rightarrow> op_result \<times> store" where
  "createAppointment e st scheduleId customerId date time serviceId notes providerId timezone sess =
     (case createAppointment_try e st scheduleId customerId date time serviceId notes providerId
             timezone sess of
        Inl m \<Rightarrow> (failure (''Error creating appointment: '' @ m), st)
      | Inr r \<Rightarrow> r)"

definition open_status :: "string \<Rightarrow> bool" where
  \<comment> \<open>\<^verbatim>\<open>.in('status', ['scheduled', 'confirmed'])\<close>\<close>
  "open_status s = (s = ''scheduled'' \<or> s = ''confirmed'')"

definition null_last :: "string option \<Rightarrow> nat \<times> string" where
  \<comment> \<open>ascending order of a nullable column\<close>
  "null_last x = (case x of None \<Rightarrow> (1, []) | Some s \<Rightarrow> (0, s))"

definition customer_appointments :: "store \<Rightarrow> string \<Rightarrow> jsval \<Rightarrow> string \<Rightarrow> appointment_row list" where
  "customer_appointments st customerId appointmentId scheduleId =
     sort_key (\<lambda>a. null_last (apt_date a)) (sort_key (\<lambda>a. null_last (apt_start a))
       [a \<leftarrow> tbl_appointments st.
          apt_customer a = customerId \<and> open_status (apt_status a)
          \<and> (scheduleId \<noteq> [] \<longrightarrow> apt_schedule a = scheduleId)
          \<and> (truthy appointmentId \<longrightarrow> apt_id a = str_of appointmentId)])"

definition not_specified_schedule :: string where
  "not_specified_schedule = ''Agenda n'' @ [CHR 0xE3] @ ''o especificada''"

definition not_specified_service :: string where
  "not_specified_service = ''Servi'' @ [CHR 0xE7] @ ''o n'' @ [CHR 0xE3] @ ''o especificado''"

definition or_default :: "string option \<Rightarrow> string \<Rightarrow> string" where
  \<comment> \<open>\<^verbatim>\<open>x || d\<close> on a nullable string\<close>
  "or_default x d = (case x of None \<Rightarrow> d | Some s \<Rightarrow> if s = [] then d else s)"

definition appointment_view :: "env \<Rightarrow> store \<Rightarrow> appointment_row \<Rightarrow> jsval" where
  "appointment_view e st apt =
     JObj [(''id'', JStr (apt_id apt)),
           (''date'', opt_js (apt_date apt)),
           (''formatted_date'', JStr (toLocaleDate e (str_of (opt_js (apt_date apt))))),
           (''time'', opt_js (apt_start apt)),
           (''end_time'', opt_js (apt_end apt)),
           (''status'', JStr (apt_status apt)),
           (''schedule_name'',
              JStr (or_default (case schedule_by_id st (apt_schedule apt) of
                                  [] \<Rightarrow> None | s # _ \<Rightarrow> sched_title s) not_specified_schedule)),
           (''service_name'',
              JStr (or_default (case apt_service apt of
                                  None \<Rightarrow> None
                                | Some sid \<Rightarrow> (case service_by_id st (JStr sid) of
                                                [] \<Rightarrow> None | s # _ \<Rightarrow> Some (svc_title s)))
                               not_specified_service))]"

definition checkAppointment :: "env \<Rightarrow> store \<Rightarrow> string \<Rightarrow> jsval \<Rightarrow> string \<Rightarrow> op_result" where
  "checkAppointment e st customerId appointmentId scheduleId =
     (case run_query e Q_lookup_appointments
             (customer_appointments st customerId appointmentId scheduleId) of
        Thrown m \<Rightarrow> failure (''Error checking appointments: '' @ m)
      | Failed m \<Rightarrow> failure (''Error checking appointments: '' @ m)
      | Data rows \<Rightarrow>
          (let appointments = map (appointment_view e st) rows
           in \<lparr>success = True,
               message = (if appointments \<noteq> []
                          then ''Found '' @ show_nat (length appointments) @ '' appointment(s)''
                          else ''No appointments found''),
               available = None, available_times = None,
               extra = [(''appointments'', JArr appointments),
                        (''count'', JNum (int (length appointments)))]\<rparr>))"

definition canceled_metadata :: "env \<Rightarrow> appointment_row \<Rightarrow> (string \<times> string) list" where
  \<comment> \<open>\<^verbatim>\<open>{ ...appointment.metadata, canceled_at: ..., canceled_via: 'agent_ia_action' }\<close>\<close>
  "canceled_metadata e apt =
     AList.update ''canceled_via'' ''agent_ia_action''
       (AList.update ''canceled_at'' (toISOString e) (apt_metadata apt))"

definition cancel_rows :: "store \<Rightarrow> string \<Rightarrow> (string \<times> string) list \<Rightarrow> store" where
  \<comment> \<open>\<^verbatim>\<open>.update({ status: 'canceled', metadata }).eq('id', id)\<close>\<close>
  "cancel_rows st ident meta =
     st\<lparr>tbl_appointments :=
          map (\<lambda>a. if apt_id a = ident then a\<lparr>apt_status := ''canceled'', apt_metadata := meta\<rparr> else a)
              (tbl_appointments st)\<rparr>"

definition own_open_appointment :: "store \<Rightarrow> jsval \<Rightarrow> string \<Rightarrow> appointment_row list" where
  \<comment> \<open>the rows with the identifier that belong to the customer and are scheduled or confirmed\<close>
  "own_open_appointment st appointmentId customerId =
     [a \<leftarrow> tbl_appointments st.
        apt_id a = str_of appointmentId \<and> apt_customer a = customerId \<and> open_status (apt_status a)]"

definition appointments_on :: "store \<Rightarrow> string \<Rightarrow> jsval \<Rightarrow> string \<Rightarrow> appointment_row list" where
  "appointments_on st customerId date scheduleId =
     [a \<leftarrow> tbl_appointments st.
        apt_customer a = customerId \<and> apt_date a = Some (str_of date) \<and> open_status (apt_status a)
        \<and> (scheduleId \<noteq> [] \<longrightarrow> apt_schedule a = scheduleId)]"

fun cancel_each :: "env \<Rightarrow> store \<Rightarrow> appointment_row list \<Rightarrow> jsval list \<Rightarrow> (exn + jsval list) \<times> store" where
  \<comment> \<open>the loop of the by-date mode: a row whose update resolves with an error is passed over\<close>
  "cancel_each e st [] canceled = (Inr canceled, st)"
| "cancel_each e st (apt # rest) canceled =
     (case run_query e (Q_cancel_row (apt_id apt)) () of
        Thrown m \<Rightarrow> (Inl m, st)
      | Failed _ \<Rightarrow> cancel_each e st rest canceled
      | Data _ \<Rightarrow>
          cancel_each e (cancel_rows st (apt_id apt) (canceled_metadata e apt)) rest
            (canceled @ [JObj [(''id'', JStr (apt_id apt)), (''date'', opt_js (apt_date apt)),
                               (''time'', opt_js (apt_start apt))]]))"

definition deleteAppointment_try ::
  "env \<Rightarrow> store \<Rightarrow> jsval \<Rightarrow> string \<Rightarrow> jsval \<Rightarrow> string \<Rightarrow> (exn + op_result) \<times> store" where
  "deleteAppointment_try e st appointmentId customerId date scheduleId =
     (if truthy appointmentId then
        (case single (run_query e Q_cancel_fetch (own_open_appointment st appointmentId customerId)) of
           Thrown m \<Rightarrow> (Inl m, st)
         | Failed _ \<Rightarrow>
             (Inr (failure (''Appointment not found with ID '' @ str_of appointmentId
                            @ '' or it doesn't belong to this customer'')), st)
         | Data appointment \<Rightarrow>
             (case run_query e Q_cancel_update () of
                Thrown m \<Rightarrow> (Inl m, st)
              | Failed m \<Rightarrow> (Inl m, st)
              | Data _ \<Rightarrow>
                  (let formattedDate = toLocaleDate e (str_of (opt_js (apt_date appointment)))
                   in (Inr \<lparr>success = True,
                            message = ''Appointment successfully canceled for '' @ formattedDate
                                      @ '' at '' @ str_of (opt_js (apt_start appointment)),
                            available = None, available_times = None,
                            extra = [(''appointment_id'', appointmentId),
                                     (''date'', opt_js (apt_date appointment)),
                                     (''formatted_date'', JStr formattedDate),
                                     (''time'', opt_js (apt_start appointment))]\<rparr>,
                       cancel_rows st (str_of appointmentId) (canceled_metadata e appointment)))))
      else if truthy date then
        (case run_query e Q_cancel_search (appointments_on st customerId date scheduleId) of
           Thrown m \<Rightarrow> (Inl m, st)
         | Failed m \<Rightarrow> (Inl m, st)
         | Data appointments \<Rightarrow>
             if appointments = [] then
               (Inr (failure (''No appointments found for date '' @ str_of date)), st)
             else
               (case cancel_each e st appointments [] of
                  (Inl m, st') \<Rightarrow> (Inl m, st')
                | (Inr canceledAppointments, st') \<Rightarrow>
                    (let formattedDate = toLocaleDate e (str_of date);
                         canceledCount = length canceledAppointments
                     in (Inr \<lparr>success = True,
                              message = ''Successfully canceled '' @ show_nat canceledCount
                                        @ '' appointment(s) for '' @ formattedDate,
                              available = None, available_times = None,
                              extra = [(''canceled_count'', JNum (int canceledCount)),
                                       (''canceled_appointments'', JArr canceledAppointments),
                                       (''date'', date),
                                       (''formatted_date'', JStr formattedDate)]\<rparr>, st'))))
      else (Inr (failure ''Either appointment_id or date is required to cancel appointments''), st))"

definition deleteAppointment ::
  "env \<Rightarrow> store \<Rightarrow> jsval \<Rightarrow> string \<Rightarrow> jsval \<Rightarrow> string \<Rightarrow> op_result \<times> store" where
  "deleteAppointment e st appointmentId customerId date scheduleId =
     (case deleteAppointment_try e st appointmentId customerId date scheduleId of
        (Inl m, st') \<Rightarrow> (failure (''Error canceling appointment: '' @ m), st')
      | (Inr r, st') \<Rightarrow> (r, st'))"

section \<open>Dispatch\<close>

record enriched =
  inner :: op_result
  service_name :: string
  schedule_name :: string
  appointment_date :: jsval
  appointment_time :: jsval
  timezone :: string

record tool_result =
  status :: string
  result_message :: "string option"
  operation :: "jsval option"
  result_spread :: "op_result option"
  result_data :: "enriched option"

text \<open>
  A dispatch result is an object with \<^verbatim>\<open>status\<close> and, when set, \<^verbatim>\<open>message\<close>,
  \<^verbatim>\<open>operation\<close>, the properties spread from an operation's result, and \<^verbatim>\<open>data\<close>.
\<close>

definition error_result :: "string \<Rightarrow> tool_result" where
  "error_result m =
     \<lparr>status = ''error'', result_message = Some m, operation = None, result_spread = None,
      result_data = None\<rparr>"

definition dquote :: string where
  "dquote = [CHR 0x22]"

definition schedule_context :: "env \<Rightarrow> store \<Rightarrow> string \<Rightarrow> exn + string \<times> string" where
  \<comment> \<open>\<^verbatim>\<open>scheduleData?.timezone || 'America/Sao_Paulo'\<close> and \<^verbatim>\<open>scheduleData?.title || 'Agenda'\<close>\<close>
  "schedule_context e st scheduleId =
     (case single (run_query e Q_action_schedule (schedule_by_id st scheduleId)) of
        Thrown m \<Rightarrow> Inl m
      | Failed _ \<Rightarrow> Inr (''America/Sao_Paulo'', ''Agenda'')
      | Data s \<Rightarrow> Inr (or_default (sched_timezone s) ''America/Sao_Paulo'',
                        or_default (sched_title s) ''Agenda''))"

definition service_title_of :: "env \<Rightarrow> store \<Rightarrow> jsval \<Rightarrow> exn + string" where
  "service_title_of e st serviceId =
     (if truthy serviceId
      then (case single (run_query e Q_action_service (service_by_id st serviceId)) of
              Thrown m \<Rightarrow> Inl m
            | Failed _ \<Rightarrow> Inr not_specified_service
            | Data service \<Rightarrow> Inr (svc_title service))
      else Inr not_specified_service)"

definition run_operation ::
  "env \<Rightarrow> store \<Rightarrow> string \<Rightarrow> jsobj \<Rightarrow> session \<Rightarrow> string \<Rightarrow> (tool_result + op_result) \<times> store" where
  \<comment> \<open>the \<^verbatim>\<open>switch (operation)\<close>: \<open>Inl\<close> is an early return of the caller\<close>
  "run_operation e st scheduleId args sess tz =
     (let operation = obj_get args ''operation''; date = obj_get args ''date'';
          time = obj_get args ''time''; appointmentId = obj_get args ''appointment_id'';
          serviceId = obj_get args ''service_id''; providerId = obj_get args ''provider_id'';
          notes = obj_get args ''notes''
      in if operation = JStr ''checkAvailability'' then
           (Inr (checkAvailability e st scheduleId date time serviceId tz), st)
         else if operation = JStr ''createAppointment'' then
           (if \<not> truthy date \<or> \<not> truthy serviceId then
              (Inl (error_result (''Missing required parameters: ''
                      @ join_with '', '' ((if \<not> truthy date then [''date''] else [])
                                          @ (if \<not> truthy serviceId then [''service_id''] else [])))), st)
            else (case createAppointment e st scheduleId (customer_id sess) date time serviceId
                         notes providerId tz sess of
                    (r, st') \<Rightarrow> (Inr r, st')))
         else if operation = JStr ''checkAppointment'' then
           (Inr (checkAppointment e st (customer_id sess) appointmentId scheduleId), st)
         else if operation = JStr ''deleteAppointment'' then
           (if \<not> truthy appointmentId \<and> \<not> truthy date then
              (Inl (error_result ''Either appointment_id or date is required to cancel appointments.''), st)
            else (case deleteAppointment e st appointmentId (customer_id sess) date scheduleId of
                    (r, st') \<Rightarrow> (Inr r, st')))
         else (Inl (error_result (''Unsupported operation: '' @ str_of operation)), st))"

definition processCheckScheduleAction_try ::
  "env \<Rightarrow> store \<Rightarrow> string \<Rightarrow> jsobj \<Rightarrow> session \<Rightarrow> (exn + tool_result) \<times> store" where
  \<comment> \<open>\<open>scheduleId\<close> is \<^verbatim>\<open>action?.config?.scheduleId\<close>, the empty string when it is missing\<close>
  "processCheckScheduleAction_try e st scheduleId args sess =
     (let operation = obj_get args ''operation''
      in if \<not> truthy operation then
           (Inr (error_result ''Operation parameter is required for schedule actions.''), st)
         else if scheduleId = [] then
           (Inr (error_result ''No schedule configured for this action.''), st)
         else
           (case schedule_context e st scheduleId of
              Inl m \<Rightarrow> (Inl m, st)
            | Inr (tz, scheduleName) \<Rightarrow>
                (case service_title_of e st (obj_get args ''service_id'') of
                   Inl m \<Rightarrow> (Inl m, st)
                 | Inr serviceName \<Rightarrow>
                     (case run_operation e st scheduleId args sess tz of
                        (Inl early, st') \<Rightarrow> (Inr early, st')
                      | (Inr result, st') \<Rightarrow>
                          (Inr \<lparr>status = (if success result then ''success'' else ''error''),
                                result_message = Some (message result),
                                operation = Some operation,
                                result_spread = Some result,
                                result_data =
                                  Some \<lparr>inner = result, service_name = serviceName,
                                        schedule_name = scheduleName,
                                        appointment_date = obj_get args ''date'',
                                        appointment_time = obj_get args ''time'',
                                        timezone = tz\<rparr>\<rparr>, st')))))"

definition processCheckScheduleAction ::
  "env \<Rightarrow> store \<Rightarrow> string \<Rightarrow> jsobj \<Rightarrow> session \<Rightarrow> tool_result \<times> store" where
  "processCheckScheduleAction e st scheduleId args sess =
     (case processCheckScheduleAction_try e st scheduleId args sess of
        (Inl m, st') \<Rightarrow> (error_result (''Error processing schedule action: '' @ m), st')
      | (Inr r, st') \<Rightarrow> (r, st'))"

record config =
  cfg_schedule :: "string option"

record system_action =
  action_name :: "string option"
  action_title :: "string option"
  action_description :: "string option"
  action_type :: string
  action_config :: "config option"

record exec_action =
  ea_type :: string
  ea_config :: jsobj

type_synonym executor = "exec_action \<Rightarrow> jsobj \<Rightarrow> session \<Rightarrow> exn + tool_result"

record executors =
  processUpdateCustomerAction :: executor
  processUpdateChatAction :: executor
  processStartFlowAction :: executor

text \<open>
  The three executors are supplied by the caller. They get the arguments object and
  return a result or raise; what they do besides is outside the module.
\<close>

record dispatch_state =
  ds_cache :: cache
  ds_store :: store
  ds_args :: jsobj

datatype 'a step = Raise exn | Return tool_result | Next 'a

fun find_action :: "system_action option list \<Rightarrow> string \<Rightarrow> exn + system_action option" where
  \<comment> \<open>\<^verbatim>\<open>actionsSystem.find(action => action.name === tool.name)\<close>\<close>
  "find_action [] n = Inr None"
| "find_action (None # rest) n = Inl ''Cannot read properties of null (reading 'name')''"
| "find_action (Some a # rest) n =
     (if action_name a = Some n then Inr (Some a) else find_action rest n)"

definition arg_lower :: "jsobj \<Rightarrow> string \<Rightarrow> exn + string" where
  \<comment> \<open>\<^verbatim>\<open>args[k].toLowerCase()\<close> on a truthy argument\<close>
  "arg_lower args k =
     (case obj_get args k of
        JStr n \<Rightarrow> Inr (toLowerCase n)
      | _ \<Rightarrow> Inl (''args.'' @ k @ ''.toLowerCase is not a function''))"

definition service_rows :: "store \<Rightarrow> string \<Rightarrow> jsval list" where
  "service_rows st scheduleId =
     map (\<lambda>s. JObj [(''id'', JStr (svc_id s)), (''title'', JStr (svc_title s))])
         [s \<leftarrow> tbl_services st. svc_schedule s = scheduleId \<and> svc_status s = ''active'']"

definition profile_rows :: "store \<Rightarrow> string \<Rightarrow> jsval list" where
  \<comment> \<open>\<^verbatim>\<open>providers.map(p => p.profiles)\<close>\<close>
  "profile_rows st scheduleId =
     map (\<lambda>p. case prov_profile p of
                 None \<Rightarrow> JNull
               | Some (pid, full_name) \<Rightarrow> JObj [(''id'', JStr pid), (''full_name'', opt_js full_name)])
         (active_providers st scheduleId)"

definition team_rows :: "store \<Rightarrow> string \<Rightarrow> jsval list" where
  "team_rows st org =
     map (\<lambda>t. JObj [(''id'', JStr (team_id t)), (''name'', JStr (team_name t))])
         [t \<leftarrow> tbl_teams st. team_org t = org]"

definition flow_rows :: "store \<Rightarrow> string \<Rightarrow> jsval list" where
  "flow_rows st org =
     map (\<lambda>f. JObj [(''id'', JStr (flow_id f)), (''name'', JStr (flow_name f))])
         [f \<leftarrow> tbl_flows st. flow_org f = org \<and> flow_active f]"

definition resolve_service :: "env \<Rightarrow> session \<Rightarrow> string \<Rightarrow> dispatch_state \<Rightarrow> unit step \<times> dispatch_state" where
  "resolve_service e sess scheduleId s =
     (if \<not> truthy (obj_get (ds_args s) ''service_name'') then (Next (), s)
      else
        (case (case getCachedMap (ds_cache s) (organization_id sess) Services (Some scheduleId) (clock e) of
                 Some m \<Rightarrow> (Next m, s)
               | None \<Rightarrow>
                   (case run_query e Q_dispatch_services (service_rows (ds_store s) scheduleId) of
                      Thrown m \<Rightarrow> (Raise m, s)
                    | Failed _ \<Rightarrow> (Return (error_result ''No services found for this schedule.''), s)
                    | Data rows \<Rightarrow>
                        if rows = [] then
                          (Return (error_result ''No services found for this schedule.''), s)
                        else (case createNameToIdMap (JArr rows) ''title'' ''id'' of
                                Inl m \<Rightarrow> (Raise m, s)
                              | Inr serviceMap \<Rightarrow>
                                  (Next serviceMap,
                                   s\<lparr>ds_cache := setCachedMap (ds_cache s) (organization_id sess)
                                                    Services serviceMap (Some scheduleId) (clock e)\<rparr>)))) of
           (Raise m, s') \<Rightarrow> (Raise m, s')
         | (Return r, s') \<Rightarrow> (Return r, s')
         | (Next serviceMap, s') \<Rightarrow>
             (case arg_lower (ds_args s') ''service_name'' of
                Inl m \<Rightarrow> (Raise m, s')
              | Inr serviceName \<Rightarrow>
                  if truthy (map_get serviceMap serviceName) then
                    (Next (), s'\<lparr>ds_args := AList.update ''service_id'' (map_get serviceMap serviceName)
                                              (ds_args s')\<rparr>)
                  else (Return (error_result
                          (''Service '' @ dquote @ str_of (obj_get (ds_args s') ''service_name'') @ dquote
                           @ '' not found. Please choose a valid service.'')), s'))))"

definition resolve_provider :: "env \<Rightarrow> session \<Rightarrow> string \<Rightarrow> dispatch_state \<Rightarrow> unit step \<times> dispatch_state" where
  \<comment> \<open>an unknown provider, or a schedule without providers, is not an error\<close>
  "resolve_provider e sess scheduleId s =
     (if \<not> truthy (obj_get (ds_args s) ''provider_name'') then (Next (), s)
      else
        (case (case getCachedMap (ds_cache s) (organization_id sess) Providers (Some scheduleId) (clock e) of
                 Some m \<Rightarrow> (Next (Some m), s)
               | None \<Rightarrow>
                   (case run_query e Q_dispatch_providers (profile_rows (ds_store s) scheduleId) of
                      Thrown m \<Rightarrow> (Raise m, s)
                    | Failed _ \<Rightarrow> (Next None, s)
                    | Data rows \<Rightarrow>
                        if rows = [] then (Next None, s)
                        else (case createNameToIdMap (JArr rows) ''full_name'' ''id'' of
                                Inl m \<Rightarrow> (Raise m, s)
                              | Inr providerMap \<Rightarrow>
                                  (Next (Some providerMap),
                                   s\<lparr>ds_cache := setCachedMap (ds_cache s) (organization_id sess)
                                                    Providers providerMap (Some scheduleId) (clock e)\<rparr>)))) of
           (Raise m, s') \<Rightarrow> (Raise m, s')
         | (Return r, s') \<Rightarrow> (Return r, s')
         | (Next None, s') \<Rightarrow> (Next (), s')
         | (Next (Some providerMap), s') \<Rightarrow>
             (case arg_lower (ds_args s') ''provider_name'' of
                Inl m \<Rightarrow> (Raise m, s')
              | Inr providerName \<Rightarrow>
                  if truthy (map_get providerMap providerName) then
                    (Next (), s'\<lparr>ds_args := AList.update ''provider_id'' (map_get providerMap providerName)
                                              (ds_args s')\<rparr>)
                  else (Next (), s'))))"

definition resolve_team :: "env \<Rightarrow> session \<Rightarrow> dispatch_state \<Rightarrow> unit step \<times> dispatch_state" where
  "resolve_team e sess s =
     (if \<not> truthy (obj_get (ds_args s) ''team_name'') then (Next (), s)
      else
        (case (case getCachedMap (ds_cache s) (organization_id sess) Teams None (clock e) of
                 Some m \<Rightarrow> (Next (Some m), s)
               | None \<Rightarrow>
                   (case run_query e Q_dispatch_teams (team_rows (ds_store s) (organization_id sess)) of
                      Thrown m \<Rightarrow> (Raise m, s)
                    | Failed _ \<Rightarrow> (Next None, s)
                    | Data rows \<Rightarrow>
                        if rows = [] then (Next None, s)
                        else (case createNameToIdMap (JArr rows) ''name'' ''id'' of
                                Inl m \<Rightarrow> (Raise m, s)
                              | Inr teamMap \<Rightarrow>
                                  (Next (Some teamMap),
                                   s\<lparr>ds_cache := setCachedMap (ds_cache s) (organization_id sess)
                                                    Teams teamMap None (clock e)\<rparr>)))) of
           (Raise m, s') \<Rightarrow> (Raise m, s')
         | (Return r, s') \<Rightarrow> (Return r, s')
         | (Next None, s') \<Rightarrow> (Next (), s')
         | (Next (Some teamMap), s') \<Rightarrow>
             (case arg_lower (ds_args s') ''team_name'' of
                Inl m \<Rightarrow> (Raise m, s')
              | Inr teamName \<Rightarrow>
                  if truthy (map_get teamMap teamName) then
                    (Next (), s'\<lparr>ds_args := AList.update ''team_id'' (map_get teamMap teamName)
                                              (ds_args s')\<rparr>)
                  else (Return (error_result
                          (''Team '' @ dquote @ str_of (obj_get (ds_args s') ''team_name'') @ dquote
                           @ '' not found. Please choose a valid team.'')), s'))))"

definition resolve_flow :: "env \<Rightarrow> session \<Rightarrow> dispatch_state \<Rightarrow> unit step \<times> dispatch_state" where
  "resolve_flow e sess s =
     (if \<not> truthy (obj_get (ds_args s) ''flow_name'') then
        (Return (error_result ''Flow name is required.''), s)
      else
        (case (case getCachedMap (ds_cache s) (organization_id sess) Flows None (clock e) of
                 Some m \<Rightarrow> (Next m, s)
               | None \<Rightarrow>
                   (case run_query e Q_dispatch_flows (flow_rows (ds_store s) (organization_id sess)) of
                      Thrown m \<Rightarrow> (Raise m, s)
                    | Failed _ \<Rightarrow>
                        (Return (error_result ''No active flows found for this organization.''), s)
                    | Data rows \<Rightarrow>
                        if rows = [] then
                          (Return (error_result ''No active flows found for this organization.''), s)
                        else (case createNameToIdMap (JArr rows) ''name'' ''id'' of
                                Inl m \<Rightarrow> (Raise m, s)
                              | Inr flowMap \<Rightarrow>
                                  (Next flowMap,
                                   s\<lparr>ds_cache := setCachedMap (ds_cache s) (organization_id sess)
                                                    Flows flowMap None (clock e)\<rparr>)))) of
           (Raise m, s') \<Rightarrow> (Raise m, s')
         | (Return r, s') \<Rightarrow> (Return r, s')
         | (Next flowMap, s') \<Rightarrow>
             (case arg_lower (ds_args s') ''flow_name'' of
                Inl m \<Rightarrow> (Raise m, s')
              | Inr flowName \<Rightarrow>
                  if truthy (map_get flowMap flowName) then
                    (Next (), s'\<lparr>ds_args := AList.update ''flow_id'' (map_get flowMap flowName)
                                              (ds_args s')\<rparr>)
                  else (Return (error_result
                          (''Flow '' @ dquote @ str_of (obj_get (ds_args s') ''flow_name'') @ dquote
                           @ '' not found. Please choose a valid flow.'')), s'))))"

definition active_schedule :: "store \<Rightarrow> string \<Rightarrow> string \<Rightarrow> schedule_row list" where
  "active_schedule st org sid =
     [sc \<leftarrow> tbl_schedules st. sched_org sc = org \<and> sched_id sc = sid \<and> sched_status sc = ''active'']"

definition of_step :: "unit step \<times> dispatch_state
    \<Rightarrow> (dispatch_state \<Rightarrow> (exn + tool_result) \<times> dispatch_state)
    \<Rightarrow> (exn + tool_result) \<times> dispatch_state" where
  \<comment> \<open>sequencing: a raise or an early return ends the call\<close>
  "of_step r k =
     (case r of
        (Raise m, s) \<Rightarrow> (Inl m, s)
      | (Return t, s) \<Rightarrow> (Inr t, s)
      | (Next _, s) \<Rightarrow> k s)"

definition schedule_case ::
  "env \<Rightarrow> system_action \<Rightarrow> session \<Rightarrow> dispatch_state \<Rightarrow> (exn + tool_result) \<times> dispatch_state" where
  "schedule_case e action sess s =
     (case action_config action of
        None \<Rightarrow> (Inl ''Cannot read properties of undefined (reading 'schedule')'', s)
      | Some cfg \<Rightarrow>
          if or_default (cfg_schedule cfg) [] = [] then
            (Inr (error_result ''Schedule ID is required.''), s)
          else
            (case run_query e Q_dispatch_schedule
                    (active_schedule (ds_store s) (organization_id sess) (or_default (cfg_schedule cfg) [])) of
               Thrown m \<Rightarrow> (Inl m, s)
             | Failed _ \<Rightarrow> (Inr (error_result ''No active schedules found for this organization.''), s)
             | Data [] \<Rightarrow> (Inr (error_result ''No active schedules found for this organization.''), s)
             | Data (sc # _) \<Rightarrow>
                 of_step (resolve_service e sess (sched_id sc) s) (\<lambda>s1.
                 of_step (resolve_provider e sess (sched_id sc) s1) (\<lambda>s2.
                   (case processCheckScheduleAction e (ds_store s2) (sched_id sc) (ds_args s2) sess of
                      (r, st') \<Rightarrow> (Inr r, s2\<lparr>ds_store := st'\<rparr>))))))"

definition update_customer_case ::
  "executors \<Rightarrow> session \<Rightarrow> dispatch_state \<Rightarrow> (exn + tool_result) \<times> dispatch_state" where
  "update_customer_case ex sess s =
     (processUpdateCustomerAction ex
        \<lparr>ea_type = ''update_customer'', ea_config = [(''name'', obj_get (ds_args s) ''name'')]\<rparr>
        (ds_args s) sess, s)"

definition update_chat_case ::
  "executors \<Rightarrow> env \<Rightarrow> session \<Rightarrow> dispatch_state \<Rightarrow> (exn + tool_result) \<times> dispatch_state" where
  "update_chat_case ex e sess s =
     of_step (resolve_team e sess s) (\<lambda>s1.
       (processUpdateChatAction ex
          \<lparr>ea_type = ''update_chat'',
           ea_config = [(''title'', obj_get (ds_args s1) ''title''),
                        (''status'', obj_get (ds_args s1) ''status''),
                        (''teamId'', obj_get (ds_args s1) ''team_id'')]\<rparr>
          (ds_args s1) sess, s1))"

definition start_flow_case ::
  "executors \<Rightarrow> env \<Rightarrow> session \<Rightarrow> dispatch_state \<Rightarrow> (exn + tool_result) \<times> dispatch_state" where
  "start_flow_case ex e sess s =
     of_step (resolve_flow e sess s) (\<lambda>s1.
       (processStartFlowAction ex
          \<lparr>ea_type = ''start_flow'', ea_config = [(''flowId'', obj_get (ds_args s1) ''flow_id'')]\<rparr>
          (ds_args s1) sess, s1))"

definition handleSystemToolCall_try ::
  "executors \<Rightarrow> env \<Rightarrow> string \<Rightarrow> system_action option list \<Rightarrow> session \<Rightarrow> dispatch_state
     \<Rightarrow> (exn + tool_result) \<times> dispatch_state" where
  \<comment> \<open>the \<^verbatim>\<open>try\<close> block; \<open>tool\<close> is \<^verbatim>\<open>tool.name\<close>\<close>
  "handleSystemToolCall_try ex e tool actionsSystem sess s =
     (case find_action actionsSystem tool of
        Inl m \<Rightarrow> (Inl m, s)
      | Inr None \<Rightarrow> (Inl ''Cannot read properties of undefined (reading 'config')'', s)
      | Inr (Some action) \<Rightarrow>
          if action_type action = ''schedule'' then schedule_case e action sess s
          else if action_type action = ''update_customer'' then update_customer_case ex sess s
          else if action_type action = ''update_chat'' then update_chat_case ex e sess s
          else if action_type action = ''start_flow'' then start_flow_case ex e sess s
          else (Inr (error_result (''Unrecognized system tool: '' @ tool)), s))"

definition handleSystemToolCall ::
  "executors \<Rightarrow> env \<Rightarrow> string \<Rightarrow> system_action option list \<Rightarrow> session \<Rightarrow> dispatch_state
     \<Rightarrow> (exn + tool_result) \<times> dispatch_state" where
  \<comment> \<open>the arguments object, the cache and the store are in the state, which is returned as
      the call leaves it; \<open>Inl\<close> would be an exception that reaches the caller\<close>
  "handleSystemToolCall ex e tool actionsSystem sess s =
     (case handleSystemToolCall_try ex e tool actionsSystem sess s of
        (Inl m, s') \<Rightarrow> (Inr (error_result (''Error processing system tool '' @ tool @ '': '' @ m)), s')
      | (Inr r, s') \<Rightarrow> (Inr r, s'))"

section \<open>Tool definitions\<close>

record tool_param =
  param_name :: string
  param_type :: string
  param_enum :: "string list option"

record tool_definition =
  tool_name :: string
  tool_description :: string
  tool_properties :: "tool_param list"
  tool_required :: "string list"

text \<open>
  A tool definition has a name, a description and a parameter schema; of the schema the
  model keeps each property's name, type and enumeration, and the list of required
  properties (the fixed descriptions of the properties are left out).
\<close>

definition plain :: "string \<Rightarrow> string \<Rightarrow> tool_param" where
  "plain n t = \<lparr>param_name = n, param_type = t, param_enum = None\<rparr>"

definition generateScheduleTool_try ::
  "env \<Rightarrow> store \<Rightarrow> string \<Rightarrow> system_action \<Rightarrow> string \<Rightarrow> exn + tool_definition option" where
  "generateScheduleTool_try e st organizationId action sid =
     (case run_query e Q_gen_schedule (active_schedule st organizationId sid) of
        Thrown m \<Rightarrow> Inl m
      | Failed m \<Rightarrow> Inl m
      | Data [] \<Rightarrow> Inr None
      | Data (sc # _) \<Rightarrow>
          (case run_query e Q_gen_services
                  [s \<leftarrow> tbl_services st. svc_schedule s = sched_id sc \<and> svc_status s = ''active''] of
             Thrown m \<Rightarrow> Inl m
           | Failed m \<Rightarrow> Inl m
           | Data svcs \<Rightarrow>
               (case run_query e Q_gen_providers (active_providers st (sched_id sc)) of
                  Thrown m \<Rightarrow> Inl m
                | Failed m \<Rightarrow> Inl m
                | Data provs \<Rightarrow>
                    (let names = [n \<leftarrow> map (\<lambda>p. case prov_profile p of
                                                  None \<Rightarrow> []
                                                | Some (_, full_name) \<Rightarrow> or_default full_name []) provs.
                                  n \<noteq> []]
                     in Inr (Some
                          \<lparr>tool_name = transformToolName (or_default (action_name action) ''schedule_appointment''),
                           tool_description =
                             or_default (action_description action)
                               (''Agendar, consultar ou cancelar compromissos na agenda '' @ dquote
                                @ str_of (opt_js (sched_title sc)) @ dquote
                                @ ''. Use esta ferramenta quando o cliente quiser agendar, verificar disponibilidade ou cancelar um agendamento existente.''),
                           tool_properties =
                             [\<lparr>param_name = ''operation'', param_type = ''string'',
                               param_enum = Some [''checkAvailability'', ''createAppointment'',
                                                  ''checkAppointment'', ''deleteAppointment'']\<rparr>,
                              plain ''date'' ''string'', plain ''time'' ''string'']
                             @ (if svcs \<noteq> [] then
                                  [\<lparr>param_name = ''service_name'', param_type = ''string'',
                                    param_enum = Some (map svc_title svcs)\<rparr>] else [])
                             @ (if names \<noteq> [] then
                                  [\<lparr>param_name = ''provider_name'', param_type = ''string'',
                                    param_enum = Some names\<rparr>] else [])
                             @ [plain ''notes'' ''string'', plain ''appointment_id'' ''string''],
                           tool_required = [''operation'']\<rparr>)))))"

definition generateScheduleTool ::
  "env \<Rightarrow> store \<Rightarrow> string \<Rightarrow> system_action \<Rightarrow> exn + tool_definition option" where
  \<comment> \<open>the test of \<^verbatim>\<open>action.config.schedule\<close> is outside the \<^verbatim>\<open>try\<close>: a missing config raises\<close>
  "generateScheduleTool e st organizationId action =
     (case action_config action of
        None \<Rightarrow> Inl ''Cannot read properties of undefined (reading 'schedule')''
      | Some cfg \<Rightarrow>
          if or_default (cfg_schedule cfg) [] = [] then Inr None
          else (case generateScheduleTool_try e st organizationId action
                       (or_default (cfg_schedule cfg) []) of
                  Inl m \<Rightarrow> Inr None
                | Inr t \<Rightarrow> Inr t))"

definition update_customer_description :: string where
  "update_customer_description =
     ''Atualizar informa'' @ [CHR 0xE7, CHR 0xF5] @ ''es do cliente, como nome, email, telefone ou est''
     @ [CHR 0xE1] @ ''gio no funil.''"

definition update_chat_description :: string where
  "update_chat_description =
     ''Atualizar informa'' @ [CHR 0xE7, CHR 0xF5] @ ''es do chat atual, como t'' @ [CHR 0xED]
     @ ''tulo, status ou equipe respons'' @ [CHR 0xE1] @ ''vel.''"

definition start_flow_description :: string where
  "start_flow_description =
     ''Iniciar um fluxo de automa'' @ [CHR 0xE7, CHR 0xE3] @ ''o para processar uma tarefa espec''
     @ [CHR 0xED] @ ''fica.''"

definition generateUpdateCustomerTool :: "system_action \<Rightarrow> tool_definition" where
  \<comment> \<open>\<^verbatim>\<open>transformToolName(action.title || "update_customer")\<close>\<close>
  "generateUpdateCustomerTool action =
     \<lparr>tool_name = transformToolName (or_default (action_title action) ''update_customer''),
      tool_description = or_default (action_description action) update_customer_description,
      tool_properties = [plain ''name'' ''string'', plain ''email'' ''string'',
                         plain ''phone'' ''string'', plain ''funnel_stage'' ''string'',
                         plain ''tags'' ''array''],
      tool_required = []\<rparr>"

definition generateUpdateChatTool :: "system_action \<Rightarrow> tool_definition" where
  "generateUpdateChatTool action =
     \<lparr>tool_name = transformToolName (or_default (action_name action) ''update_chat''),
      tool_description = or_default (action_description action) update_chat_description,
      tool_properties = [plain ''title'' ''string'',
                         \<lparr>param_name = ''status'', param_type = ''string'',
                          param_enum = Some [''in_progress'', ''waiting'', ''closed'', ''transferred'']\<rparr>,
                         plain ''team_name'' ''string''],
      tool_required = []\<rparr>"

definition generateStartFlowTool :: "env \<Rightarrow> store \<Rightarrow> string \<Rightarrow> system_action \<Rightarrow> tool_definition option" where
  "generateStartFlowTool e st organizationId action =
     (case run_query e Q_gen_flows [f \<leftarrow> tbl_flows st. flow_org f = organizationId \<and> flow_active f] of
        Thrown m \<Rightarrow> None
      | Failed m \<Rightarrow> None
      | Data fl \<Rightarrow>
          if fl = [] then None
          else Some \<lparr>tool_name = transformToolName (or_default (action_name action) ''start_flow''),
                     tool_description = or_default (action_description action) start_flow_description,
                     tool_properties = [\<lparr>param_name = ''flow_name'', param_type = ''string'',
                                         param_enum = Some (map flow_name fl)\<rparr>,
                                        plain ''variables'' ''object''],
                     tool_required = [''flow_name'']\<rparr>)"

definition generate_tool ::
  "env \<Rightarrow> store \<Rightarrow> string \<Rightarrow> system_action \<Rightarrow> exn + tool_definition option" where
  \<comment> \<open>the \<^verbatim>\<open>switch (actionType)\<close> of \<^verbatim>\<open>generateSystemTools\<close>\<close>
  "generate_tool e st organizationId action =
     (if action_type action = ''schedule'' then generateScheduleTool e st organizationId action
      else if action_type action = ''update_customer'' then Inr (Some (generateUpdateCustomerTool action))
      else if action_type action = ''update_chat'' then Inr (Some (generateUpdateChatTool action))
      else if action_type action = ''start_flow'' then Inr (generateStartFlowTool e st organizationId action)
      else Inr None)"

fun generate_each ::
  "env \<Rightarrow> store \<Rightarrow> string \<Rightarrow> system_action option list \<Rightarrow> tool_definition list
     \<Rightarrow> exn + tool_definition list" where
  "generate_each e st organizationId [] tools = Inr tools"
| "generate_each e st organizationId (None # rest) tools = generate_each e st organizationId rest tools"
| "generate_each e st organizationId (Some action # rest) tools =
     (if action_type action = [] then generate_each e st organizationId rest tools
      else (case generate_tool e st organizationId action of
              Inl m \<Rightarrow> Inl m
            | Inr None \<Rightarrow> generate_each e st organizationId rest tools
            | Inr (Some tool) \<Rightarrow> generate_each e st organizationId rest (tools @ [tool])))"

definition generateSystemTools :: "env \<Rightarrow> store \<Rightarrow> string \<Rightarrow> system_action option list \<Rightarrow> tool_definition list" where
  "generateSystemTools e st organizationId systemActions =
     (case generate_each e st organizationId systemActions [] of Inl m \<Rightarrow> [] | Inr tools \<Rightarrow> tools)"

section \<open>Result envelopes and written properties\<close>

definition is_envelope :: "tool_result \<Rightarrow> bool" where
  \<comment> \<open>\<^verbatim>\<open>{ status: "success" | "error", message, ... }\<close>\<close>
  "is_envelope r = ((status r = ''success'' \<or> status r = ''error'') \<and> result_message r \<noteq> None)"

definition resolved_keys :: "string list" where
  \<comment> \<open>the properties the dispatcher assigns on the arguments object\<close>
  "resolved_keys = [''service_id'', ''provider_id'', ''team_id'', ''flow_id'']"

abbreviation only_resolved_written :: "jsobj \<Rightarrow> jsobj \<Rightarrow> bool" where
  "only_resolved_written a a' \<equiv>
     (\<forall>k. k \<notin> set resolved_keys \<longrightarrow> map_of a' k = map_of a k)
     \<and> (\<forall>k \<in> set resolved_keys. map_of a' k = map_of a k \<or> (\<exists>v. truthy v \<and> map_of a' k = Some v))"

subsection \<open>The arguments object after a call\<close>

text \<open>
  What the claim about the arguments object says, written out. The name map in use
  for a resource type is the cached one while it is valid, else the one built from the
  rows the lookup yields. A name resolves when it is a non-empty string and the map in
  use holds a truthy value under the lowercased name; that value is then assigned to
  the identifier property. In a scheduling call the provider is resolved after the
  service, and not at all when a service name was given and did not resolve.
\<close>

definition map_in_use ::
  "env \<Rightarrow> cache \<Rightarrow> string \<Rightarrow> rtype \<Rightarrow> string option \<Rightarrow> qsite \<Rightarrow> jsval list \<Rightarrow> string
     \<Rightarrow> name_map option" where
  "map_in_use e c org ty subKey site rows nameKey =
     (case getCachedMap c org ty subKey (clock e) of
        Some m \<Rightarrow> Some m
      | None \<Rightarrow>
          (case run_query e site rows of
             Data rs \<Rightarrow>
               if rs = [] then None
               else (case createNameToIdMap (JArr rs) nameKey ''id'' of
                       Inl _ \<Rightarrow> None
                     | Inr m \<Rightarrow> Some m)
           | _ \<Rightarrow> None))"

definition lookup_name :: "jsobj \<Rightarrow> string \<Rightarrow> name_map option \<Rightarrow> jsval option" where
  "lookup_name args nameKey mp =
     (case mp of
        None \<Rightarrow> None
      | Some m \<Rightarrow>
          (case obj_get args nameKey of
             JStr n \<Rightarrow>
               if n \<noteq> [] \<and> truthy (map_get m (toLowerCase n)) then Some (map_get m (toLowerCase n))
               else None
           | _ \<Rightarrow> None))"

definition with_id :: "string \<Rightarrow> jsval option \<Rightarrow> jsobj \<Rightarrow> jsobj" where
  "with_id k v args = (case v of None \<Rightarrow> args | Some x \<Rightarrow> AList.update k x args)"

definition resolved_args :: "env \<Rightarrow> session \<Rightarrow> dispatch_state \<Rightarrow> system_action \<Rightarrow> jsobj" where
  "resolved_args e sess s action =
     (let args = ds_args s; org = organization_id sess; c = ds_cache s; st = ds_store s
      in if action_type action = ''schedule'' then
           (case action_config action of
              None \<Rightarrow> args
            | Some cfg \<Rightarrow>
                if or_default (cfg_schedule cfg) [] = [] then args
                else (case run_query e Q_dispatch_schedule
                             (active_schedule st org (or_default (cfg_schedule cfg) [])) of
                        Data (sc # _) \<Rightarrow>
                          (let service = lookup_name args ''service_name''
                                 (map_in_use e c org Services (Some (sched_id sc)) Q_dispatch_services
                                    (service_rows st (sched_id sc)) ''title'');
                               provider = lookup_name args ''provider_name''
                                 (map_in_use e c org Providers (Some (sched_id sc)) Q_dispatch_providers
                                    (profile_rows st (sched_id sc)) ''full_name'')
                           in if truthy (obj_get args ''service_name'') \<and> service = None then args
                              else with_id ''provider_id'' provider (with_id ''service_id'' service args))
                      | _ \<Rightarrow> args))
         else if action_type action = ''update_chat'' then
           with_id ''team_id''
             (lookup_name args ''team_name''
                (map_in_use e c org Teams None Q_dispatch_teams (team_rows st org) ''name'')) args
         else if action_type action = ''start_flow'' then
           with_id ''flow_id''
             (lookup_name args ''flow_name''
                (map_in_use e c org Flows None Q_dispatch_flows (flow_rows st org) ''name'')) args
         else args)"

section \<open>A small salon\<close>

text \<open>
  The scenario of the specification: schedule \<open>S\<close> of organization \<open>org-1\<close> has the
  service \<open>Corte\<close> of 30 minutes and one provider, available on Mondays from 09:00 to
  10:00; 2024-01-08 is a Monday, 2024-01-09 a Tuesday. Every query answers.
\<close>

definition salon_env :: env where
  "salon_env =
     \<lparr>q_mode = (\<lambda>site. Answers),
      getDay = (\<lambda>d. if d = ''2024-01-08'' then Some 1 else if d = ''2024-01-09'' then Some 2 else None),
      toLocaleDate = (\<lambda>d. if d = ''2024-01-08'' then ''08/01/2024'' else ''Invalid Date''),
      toISOString = ''2024-01-05T10:00:00.000Z'',
      fresh_id = ''apt-2'',
      clock = 1000\<rparr>"

definition salon_booking :: appointment_row where
  "salon_booking =
     \<lparr>apt_id = ''apt-1'', apt_schedule = ''S'', apt_customer = ''cust-1'',
      apt_provider = Some ''profile-1'', apt_service = Some ''corte'',
      apt_date = Some ''2024-01-08'', apt_start = Some ''09:00'', apt_end = Some ''09:30'',
      apt_status = ''scheduled'', apt_notes = [], apt_chat = ''chat-1'', apt_metadata = []\<rparr>"

definition salon :: "appointment_row list \<Rightarrow> store" where
  "salon bookings =
     \<lparr>tbl_schedules = [\<lparr>sched_id = ''S'', sched_title = Some ''Sala 1'', sched_timezone = None,
                        sched_org = ''org-1'', sched_status = ''active''\<rparr>],
      tbl_services = [\<lparr>svc_id = ''corte'', svc_title = ''Corte'', svc_duration = Some ''00:30'',
                       svc_by_arrival = False, svc_schedule = ''S'', svc_status = ''active''\<rparr>],
      tbl_providers = [\<lparr>prov_id = ''P'', prov_profile_id = ''profile-1'', prov_schedule = ''S'',
                        prov_status = ''active'', prov_profile = Some (''profile-1'', Some ''Ana'')\<rparr>],
      tbl_availability = [\<lparr>av_provider = ''P'', av_day = 1, av_start = Some ''09:00:00'',
                           av_end = Some ''10:00:00''\<rparr>],
      tbl_appointments = bookings,
      tbl_teams = [\<lparr>team_id = ''team-1'', team_name = ''Vendas'', team_org = ''org-1''\<rparr>],
      tbl_flows = [\<lparr>flow_id = ''flow-1'', flow_name = ''Boas-vindas'', flow_org = ''org-1'',
                    flow_active = True\<rparr>]\<rparr>"

definition salon_session :: session where
  "salon_session = \<lparr>organization_id = ''org-1'', customer_id = ''cust-1'', chat_id = ''chat-1''\<rparr>"

definition salon_executors :: executors where
  "salon_executors =
     \<lparr>processUpdateCustomerAction =
        (\<lambda>a args sess. Inr \<lparr>status = ''success'', result_message = Some ''Customer updated'',
                             operation = None, result_spread = None, result_data = None\<rparr>),
      processUpdateChatAction =
        (\<lambda>a args sess. Inr \<lparr>status = ''success'', result_message = Some ''Chat updated'',
                             operation = None, result_spread = None, result_data = None\<rparr>),
      processStartFlowAction =
        (\<lambda>a args sess. Inl ''flow engine unavailable'')\<rparr>"

definition salon_actions :: "system_action option list" where
  "salon_actions =
     [Some \<lparr>action_name = Some ''agendar'', action_title = None, action_description = None,
            action_type = ''schedule'', action_config = Some \<lparr>cfg_schedule = Some ''S''\<rparr>\<rparr>,
      Some \<lparr>action_name = Some ''iniciar_fluxo'', action_title = None, action_description = None,
            action_type = ''start_flow'', action_config = Some \<lparr>cfg_schedule = None\<rparr>\<rparr>]"

definition salon_desk_actions :: "system_action option list" where
  "salon_desk_actions =
     [Some \<lparr>action_name = Some ''transferir'', action_title = None, action_description = None,
            action_type = ''update_chat'', action_config = None\<rparr>]"

definition salon_call :: "jsobj \<Rightarrow> dispatch_state" where
  \<comment> \<open>a call with an empty cache\<close>
  "salon_call args = \<lparr>ds_cache = Map.empty, ds_store = salon [], ds_args = args\<rparr>"

section \<open>Slugs\<close>

lemma js_lower_char_fixed: "is_lower_alnum c \<or> c = CHR ''_'' \<Longrightarrow> js_lower_char c = c"
  by (auto simp: is_lower_alnum_def js_lower_char_def Let_def)

lemma collapse_keeps_head: "\<exists>r. collapse_underscores (d # cs) = d # r"
  by (induction "d # cs" arbitrary: d cs rule: collapse_underscores.induct) auto

lemma collapse_no_double: "no_double_underscore (collapse_underscores s)"
proof (induction s rule: collapse_underscores.induct)
  case (1 c d cs)
  obtain r where "collapse_underscores (d # cs) = d # r"
    using collapse_keeps_head by blast
  with 1 show ?case by auto
qed auto

lemma collapse_fixed: "no_double_underscore s \<Longrightarrow> collapse_underscores s = s"
  by (induction s rule: collapse_underscores.induct) auto

lemma collapse_list_all: "list_all P s \<Longrightarrow> list_all P (collapse_underscores s)"
  by (induction s rule: collapse_underscores.induct) auto

lemma no_double_tl: "no_double_underscore (c # s) \<Longrightarrow> no_double_underscore s"
  by (cases s) auto

lemma no_double_butlast: "no_double_underscore s \<Longrightarrow> no_double_underscore (butlast s)"
  by (induction s rule: no_double_underscore.induct) (auto split: if_splits)

lemma no_double_last:
  "no_double_underscore s \<Longrightarrow> s \<noteq> [] \<Longrightarrow> last s = CHR ''_'' \<Longrightarrow> butlast s \<noteq> []
     \<Longrightarrow> last (butlast s) \<noteq> CHR ''_''"
  by (induction s rule: no_double_underscore.induct) (auto split: if_splits)

lemma list_all_butlast: "list_all P t \<Longrightarrow> list_all P (butlast t)"
  by (auto simp: list_all_iff dest: in_set_butlastD)

lemma hd_butlast_keep: "butlast t \<noteq> [] \<Longrightarrow> hd (butlast t) = hd t"
  by (cases t) (auto split: if_splits)

lemma strip_trailing_normal:
  assumes "list_all (\<lambda>c. is_lower_alnum c \<or> c = CHR ''_'') t" "no_double_underscore t"
    "t \<noteq> [] \<longrightarrow> hd t \<noteq> CHR ''_''"
  shows "normal_slug (if t \<noteq> [] \<and> last t = CHR ''_'' then butlast t else t)"
  using assms
  by (auto simp: normal_slug_def list_all_butlast no_double_butlast hd_butlast_keep no_double_last)

lemma strip_edge_normal:
  assumes "list_all (\<lambda>c. is_lower_alnum c \<or> c = CHR ''_'') s" "no_double_underscore s"
  shows "normal_slug (strip_edge_underscores s)"
proof (cases s)
  case Nil
  then show ?thesis by (simp add: strip_edge_underscores_def normal_slug_def)
next
  case (Cons c r)
  show ?thesis
  proof (cases "c = CHR ''_''")
    case True
    have "list_all (\<lambda>c. is_lower_alnum c \<or> c = CHR ''_'') r" "no_double_underscore r"
      "r \<noteq> [] \<longrightarrow> hd r \<noteq> CHR ''_''"
      using assms Cons True by (auto intro: no_double_tl) (cases r, auto)
    from strip_trailing_normal [OF this] show ?thesis
      using Cons True by (simp add: strip_edge_underscores_def)
  next
    case False
    have "s \<noteq> [] \<longrightarrow> hd s \<noteq> CHR ''_''" using Cons False by simp
    from strip_trailing_normal [OF assms this] show ?thesis
      using Cons False by (auto simp add: strip_edge_underscores_def Let_def split: if_splits)
  qed
qed

lemma replace_list_all: "list_all (\<lambda>c. is_lower_alnum c \<or> c = CHR ''_'') (replace_non_alnum s)"
  by (induction s) (auto simp: replace_non_alnum_def)

lemma transformToolName_normal: "normal_slug (transformToolName s)"
  by (simp add: transformToolName_def normal_slug_def)
     (metis strip_edge_normal collapse_no_double collapse_list_all replace_list_all normal_slug_def)

lemma normal_slug_fixed:
  assumes n: "normal_slug s"
  shows "transformToolName s = s"
proof -
  have a: "list_all (\<lambda>c. is_lower_alnum c \<or> c = CHR ''_'') s"
    using n by (simp add: normal_slug_def)
  have 1: "toLowerCase s = s"
    using a by (simp add: toLowerCase_def list_all_iff map_idI js_lower_char_fixed)
  have 2: "replace_non_alnum s = s"
    using a by (induction s) (auto simp: replace_non_alnum_def)
  have 3: "collapse_underscores s = s"
    using n by (simp add: normal_slug_def collapse_fixed)
  have 4: "strip_edge_underscores s = s"
    using n by (cases s) (auto simp: normal_slug_def strip_edge_underscores_def)
  show ?thesis by (simp add: transformToolName_def 1 2 3 4)
qed

text \<open>
  Claim C7, as amended. The slug transformation lowercases and turns every character
  outside \<^verbatim>\<open>[a-z0-9]\<close> into an underscore, so a string that matches the documented pattern
  \<^verbatim>\<open>[a-zA-Z0-9_-]+\<close> is in general changed. What holds: a string of lowercase letters and
  digits joined by single underscores, with no underscore at either end, is returned
  unchanged; the output of the transformation is such a string, so transforming twice
  is transforming once; and \<^verbatim>\<open>"Agendar Consulta!"\<close> yields \<^verbatim>\<open>"agendar_consulta"\<close>.
\<close>

theorem transformToolName_idempotent:
  "(normal_slug s \<longrightarrow> transformToolName s = s)
   \<and> transformToolName (transformToolName s) = transformToolName s
   \<and> transformToolName ''Agendar Consulta!'' = ''agendar_consulta''"
proof (intro conjI impI)
  show "transformToolName s = s" if "normal_slug s"
    using that by (rule normal_slug_fixed)
  show "transformToolName (transformToolName s) = transformToolName s"
    by (rule normal_slug_fixed [OF transformToolName_normal])
  show "transformToolName ''Agendar Consulta!'' = ''agendar_consulta''"
    by code_simp
qed

theorem transformToolName_idempotent_witness:
  "normal_slug ''agendar_consulta'' \<and> transformToolName ''agendar_consulta'' = ''agendar_consulta''"
proof -
  have h: "normal_slug ''agendar_consulta''" by code_simp
  from transformToolName_idempotent [of "''agendar_consulta''"] h
  have "transformToolName ''agendar_consulta'' = ''agendar_consulta''" by blast
  with h show ?thesis by blast
qed

text \<open>
  The claim as stated fails: \<^verbatim>\<open>"a-b"\<close> matches the slug pattern and is transformed into
  \<^verbatim>\<open>"a_b"\<close>.
\<close>

theorem transformToolName_slug_counterexample:
  "matches_slug_pattern ''a-b'' \<and> transformToolName ''a-b'' \<noteq> ''a-b''"
  by code_simp

section \<open>Tool names\<close>

text \<open>
  Claim C8. Every generated tool is to be named by the slug of the action's \<^verbatim>\<open>name\<close>. The
  generators of the schedule, chat and flow tools do so; \<^verbatim>\<open>generateUpdateCustomerTool\<close>
  reads \<^verbatim>\<open>action.title\<close>, a property that configured actions do not have, and so names
  the tool \<^verbatim>\<open>update_customer\<close> whatever the configured name is. At the action named
  \<^verbatim>\<open>"Atualizar Cliente"\<close> the catalog holds \<^verbatim>\<open>update_customer\<close>, not
  \<^verbatim>\<open>atualizar_cliente\<close>.
\<close>

theorem generateUpdateCustomerTool_ignores_name:
  "map tool_name
     (generateSystemTools e st org
        [Some \<lparr>action_name = Some ''Atualizar Cliente'', action_title = None,
                action_description = None, action_type = ''update_customer'',
                action_config = None\<rparr>]) = [''update_customer'']
   \<and> transformToolName ''Atualizar Cliente'' = ''atualizar_cliente''"
proof
  show "map tool_name
     (generateSystemTools e st org
        [Some \<lparr>action_name = Some ''Atualizar Cliente'', action_title = None,
                action_description = None, action_type = ''update_customer'',
                action_config = None\<rparr>]) = [''update_customer'']"
    by (simp add: generateSystemTools_def generate_tool_def generateUpdateCustomerTool_def
        or_default_def)
       code_simp
  show "transformToolName ''Atualizar Cliente'' = ''atualizar_cliente''"
    by code_simp
qed

section \<open>The cache\<close>

lemma getCachedMap_after_set:
  assumes "organizationId \<noteq> []" and "0 < t0"
  shows "getCachedMap (setCachedMap c organizationId ty m subKey t0) organizationId ty subKey t1 =
           (if per_schedule ty \<and> \<not> key_given subKey then None
            else if int t1 - int t0 < CACHE_EXPIRATION then Some m else None)"
proof (cases "per_schedule ty")
  case True
  then show ?thesis
    using assms
    by (auto simp: getCachedMap_def setCachedMap_def Let_def put_bucket_def bucket_of_def
        read_entry_def isCacheValid_def per_schedule_def put_entry_def
        split: option.splits rtype.splits)
next
  case False
  then show ?thesis
    using assms
    by (cases ty)
       (auto simp: getCachedMap_def setCachedMap_def Let_def entry_of_def put_entry_def
         read_entry_def isCacheValid_def per_schedule_def split: option.splits)
qed

text \<open>
  Claim C3, as amended. For a non-empty organization identifier and a set performed at
  a clock reading \<open>t0\<close> other than zero, the get that follows with the same organization,
  type and sub-key at clock reading \<open>t1\<close> returns exactly the stored mapping while
  \<open>t1 - t0\<close> is less than one hour, and nothing once it is one hour or more; for services
  and providers a get without a sub-key (omitted or empty) returns nothing, whatever
  the cache holds.
\<close>

theorem cache_get_after_set:
  assumes "organizationId \<noteq> []" and "0 < t0"
  shows "getCachedMap (setCachedMap c organizationId ty m subKey t0) organizationId ty subKey t1 =
           (if per_schedule ty \<and> \<not> key_given subKey then None
            else if int t1 - int t0 < 3600000 then Some m else None)
         \<and> getCachedMap c' org' Services None t1' = None
         \<and> getCachedMap c' org' Providers None t1' = None
         \<and> getCachedMap c' org' Services (Some []) t1' = None
         \<and> getCachedMap c' org' Providers (Some []) t1' = None"
  using getCachedMap_after_set [OF assms, of c ty m subKey t1]
  by (simp add: CACHE_EXPIRATION_def getCachedMap_def per_schedule_def key_given_def
      split: option.splits)

theorem cache_get_after_set_witness:
  "''org-1'' \<noteq> [] \<and> (0::nat) < 1000
   \<and> getCachedMap (setCachedMap Map.empty ''org-1'' Services \<lparr>entries = [(''corte'', JStr ''svc-1'')], proto = JProto\<rparr>
                     (Some ''sched-1'') 1000) ''org-1'' Services (Some ''sched-1'') 2000
       = Some \<lparr>entries = [(''corte'', JStr ''svc-1'')], proto = JProto\<rparr>
   \<and> getCachedMap (setCachedMap Map.empty ''org-1'' Teams \<lparr>entries = [(''vendas'', JStr ''team-1'')], proto = JProto\<rparr>
                     None 1000) ''org-1'' Teams None 3601000 = None"
proof -
  have h1: "''org-1'' \<noteq> []" by simp
  have h2: "(0::nat) < 1000" by simp
  show ?thesis
    using cache_get_after_set [OF h1 h2, of Map.empty Services "\<lparr>entries = [(''corte'', JStr ''svc-1'')], proto = JProto\<rparr>"
            "Some ''sched-1''" 2000]
          cache_get_after_set [OF h1 h2, of Map.empty Teams "\<lparr>entries = [(''vendas'', JStr ''team-1'')], proto = JProto\<rparr>"
            None 3601000]
    by (simp add: per_schedule_def key_given_def)
qed

text \<open>
  The claim as stated fails for the empty organization identifier: \<^verbatim>\<open>setCachedMap\<close>
  returns at once on a falsy identifier, and a get one millisecond later finds nothing.
\<close>

theorem cache_empty_organization_counterexample:
  "int 1001 - int 1000 < CACHE_EXPIRATION
   \<and> getCachedMap (setCachedMap Map.empty [] Teams \<lparr>entries = [(''vendas'', JStr ''team-1'')], proto = JProto\<rparr> None 1000)
        [] Teams None 1001 \<noteq> Some \<lparr>entries = [(''vendas'', JStr ''team-1'')], proto = JProto\<rparr>"
  by (simp add: CACHE_EXPIRATION_def setCachedMap_def getCachedMap_def)

section \<open>The name map\<close>

lemma add_item_skip:
  "\<not> truthy (resolve_field item nk) \<or> \<not> truthy (resolve_field item ik) \<Longrightarrow> add_item nk ik m item = Inr m"
  by (auto simp: add_item_def Let_def)

lemma add_items_append:
  "add_items nk ik m (xs @ ys) =
     (case add_items nk ik m xs of Inl e \<Rightarrow> Inl e | Inr m' \<Rightarrow> add_items nk ik m' ys)"
  by (induction xs arbitrary: m) (auto split: sum.splits)

lemma map_set_keys: "fst ` set (entries (map_set m k v)) \<subseteq> insert k (fst ` set (entries m))"
  by (auto simp: map_set_def dom_update)

lemma map_set_other: "k' \<noteq> k \<Longrightarrow> map_of (entries (map_set m k' v)) k = map_of (entries m) k"
  by (simp add: map_set_def update_conv')

lemma map_set_same: "k \<noteq> ''__proto__'' \<Longrightarrow> map_of (entries (map_set m k v)) k = Some v"
  by (simp add: map_set_def update_conv')

lemma add_item_keys:
  assumes "add_item nk ik m item = Inr m'" "k \<in> fst ` set (entries m')"
  shows "k \<in> fst ` set (entries m) \<or> (\<exists>n. resolve_field item nk = JStr n \<and> k = toLowerCase n)"
proof (cases "m' = m")
  case True
  with assms show ?thesis by simp
next
  case False
  with assms(1) obtain n where n: "resolve_field item nk = JStr n"
    and m': "m' = map_set m (toLowerCase n) (resolve_field item ik)"
    by (auto simp: add_item_def Let_def split: if_splits jsval.splits)
  from assms(2) map_set_keys [of m "toLowerCase n" "resolve_field item ik"]
  have "k \<in> insert (toLowerCase n) (fst ` set (entries m))"
    unfolding m' by blast
  with n show ?thesis by auto
qed

lemma add_items_keys:
  "add_items nk ik m xs = Inr m' \<Longrightarrow> k \<in> fst ` set (entries m') \<Longrightarrow>
     k \<in> fst ` set (entries m)
     \<or> (\<exists>it \<in> set xs. \<exists>n. resolve_field it nk = JStr n \<and> k = toLowerCase n)"
proof (induction xs arbitrary: m)
  case Nil
  then show ?case by simp
next
  case (Cons x xs)
  from Cons.prems(1) obtain m1 where a: "add_item nk ik m x = Inr m1" and b: "add_items nk ik m1 xs = Inr m'"
    by (auto split: sum.splits)
  from Cons.IH [OF b Cons.prems(2)] add_item_keys [OF a] show ?case by auto
qed

lemma add_item_other:
  "add_item nk ik m item = Inr m' \<Longrightarrow>
   (\<forall>n. resolve_field item nk = JStr n \<and> truthy (resolve_field item ik) \<longrightarrow> toLowerCase n \<noteq> k) \<Longrightarrow>
   map_of (entries m') k = map_of (entries m) k"
  by (auto simp: add_item_def Let_def map_set_other split: if_splits jsval.splits)

lemma add_items_other:
  "add_items nk ik m xs = Inr m' \<Longrightarrow>
   (\<forall>z \<in> set xs. \<forall>n. resolve_field z nk = JStr n \<and> truthy (resolve_field z ik) \<longrightarrow> toLowerCase n \<noteq> k) \<Longrightarrow>
   map_of (entries m') k = map_of (entries m) k"
proof (induction xs arbitrary: m)
  case Nil
  then show ?case by simp
next
  case (Cons x xs)
  from Cons.prems(1) obtain m1 where a: "add_item nk ik m x = Inr m1" and b: "add_items nk ik m1 xs = Inr m'"
    by (auto split: sum.splits)
  have "map_of (entries m') k = map_of (entries m1) k" using Cons.IH [OF b] Cons.prems(2) by simp
  moreover have "map_of (entries m1) k = map_of (entries m) k"
    using add_item_other [OF a] Cons.prems(2) by simp
  ultimately show ?case by simp
qed

lemma walk_falsy: "\<not> truthy v \<Longrightarrow> walk_path v ks = v"
  by (cases ks) auto

lemma resolve_falsy_item: "\<not> truthy item \<Longrightarrow> \<not> truthy (resolve_field item k)"
  by (cases item) (auto simp: resolve_field_def Let_def walk_falsy)

lemma add_item_valid:
  "resolve_field b nk = JStr nb \<Longrightarrow> nb \<noteq> [] \<Longrightarrow> truthy (resolve_field b ik) \<Longrightarrow>
   add_item nk ik m b = Inr (map_set m (toLowerCase nb) (resolve_field b ik))"
  using resolve_falsy_item [of b ik] by (auto simp: add_item_def Let_def)

lemma createNameToIdMap_empty:
  "createNameToIdMap JNull nk ik = Inr empty_map" "createNameToIdMap JUndefined nk ik = Inr empty_map"
  "createNameToIdMap (JArr []) nk ik = Inr empty_map"
  by (simp_all add: createNameToIdMap_def)

lemma createNameToIdMap_skips:
  "\<not> truthy (resolve_field item nk) \<or> \<not> truthy (resolve_field item ik) \<Longrightarrow>
   createNameToIdMap (JArr (xs @ item # ys)) nk ik = createNameToIdMap (JArr (xs @ ys)) nk ik"
  by (simp add: createNameToIdMap_def add_items_append add_item_skip split: sum.splits)

lemma createNameToIdMap_keys:
  assumes "createNameToIdMap (JArr its) nk ik = Inr m" "k \<in> fst ` set (entries m)"
  shows "\<exists>it \<in> set its. \<exists>n. resolve_field it nk = JStr n \<and> k = toLowerCase n"
proof -
  from assms(1) have "add_items nk ik empty_map its = Inr m" by (simp add: createNameToIdMap_def)
  from add_items_keys [OF this assms(2)] show ?thesis by (simp add: empty_map_def)
qed

text \<open>
  For every name but \<^verbatim>\<open>__proto__\<close> the last item that writes a key decides the key's value.
\<close>

lemma createNameToIdMap_last_wins:
  assumes "createNameToIdMap (JArr (pre @ b # post)) nk ik = Inr m"
    "resolve_field b nk = JStr nb" "nb \<noteq> []" "truthy (resolve_field b ik)"
    "\<forall>z \<in> set post. \<forall>n. resolve_field z nk = JStr n \<and> truthy (resolve_field z ik)
        \<longrightarrow> toLowerCase n \<noteq> toLowerCase nb"
    "toLowerCase nb \<noteq> ''__proto__''"
  shows "map_get m (toLowerCase nb) = resolve_field b ik"
proof -
  from assms(1) have "add_items nk ik empty_map (pre @ b # post) = Inr m"
    by (simp add: createNameToIdMap_def)
  then obtain m1 where a: "add_items nk ik empty_map pre = Inr m1"
    and b: "add_items nk ik m1 (b # post) = Inr m"
    by (auto simp: add_items_append split: sum.splits)
  from b add_item_valid [OF assms(2,3,4)]
  have c: "add_items nk ik (map_set m1 (toLowerCase nb) (resolve_field b ik)) post = Inr m" by simp
  from add_items_other [OF c assms(5)] map_set_same [OF assms(6)]
  have "map_of (entries m) (toLowerCase nb) = Some (resolve_field b ik)" by simp
  then show ?thesis by (simp add: map_get_def)
qed

text \<open>
  Claim C6 fails on the code. The map is a plain object, and the assignment
  \<^verbatim>\<open>map[name.toLowerCase()] = id\<close> at the name \<^verbatim>\<open>__proto__\<close> reaches the accessor of
  \<^verbatim>\<open>Object.prototype\<close>, which ignores a string. Of two teams named \<^verbatim>\<open>__proto__\<close> and
  \<^verbatim>\<open>__PROTO__\<close> neither is recorded: the map built has no key at all, and a lookup of the
  shared lowercased name gives \<^verbatim>\<open>Object.prototype\<close>, not the later identifier. With the
  names \<^verbatim>\<open>Vendas\<close> and \<^verbatim>\<open>VENDAS\<close> the same rows give the later identifier; and with a
  dotted key the name is found by the nested traversal, an item where the traversal
  finds nothing being skipped like a null item.
\<close>

theorem createNameToIdMap_drops_proto:
  "resolve_field (JObj [(''id'', JStr ''t1''), (''name'', JStr ''__proto__'')]) ''name'' = JStr ''__proto__''
   \<and> resolve_field (JObj [(''id'', JStr ''t2''), (''name'', JStr ''__PROTO__'')]) ''name'' = JStr ''__PROTO__''
   \<and> toLowerCase ''__PROTO__'' = toLowerCase ''__proto__''
   \<and> resolve_field (JObj [(''id'', JStr ''t2''), (''name'', JStr ''__PROTO__'')]) ''id'' = JStr ''t2''
   \<and> createNameToIdMap
        (JArr [JObj [(''id'', JStr ''t1''), (''name'', JStr ''__proto__'')],
               JObj [(''id'', JStr ''t2''), (''name'', JStr ''__PROTO__'')]]) ''name'' ''id''
       = Inr \<lparr>entries = [], proto = JProto\<rparr>
   \<and> map_get \<lparr>entries = [], proto = JProto\<rparr> (toLowerCase ''__PROTO__'') = JProto
   \<and> map_get \<lparr>entries = [], proto = JProto\<rparr> (toLowerCase ''__PROTO__'') \<noteq> JStr ''t2''
   \<and> createNameToIdMap
        (JArr [JObj [(''id'', JStr ''t1''), (''name'', JStr ''Vendas'')],
               JObj [(''id'', JStr ''t2''), (''name'', JStr ''VENDAS'')]]) ''name'' ''id''
       = Inr \<lparr>entries = [(''vendas'', JStr ''t2'')], proto = JProto\<rparr>
   \<and> createNameToIdMap
        (JArr [JObj [(''id'', JStr ''p1''), (''profiles'', JObj [(''full_name'', JStr ''Ana'')])],
               JObj [(''id'', JStr ''p2''), (''profiles'', JNull)],
               JObj [(''id'', JStr ''p3'')],
               JNull]) ''profiles.full_name'' ''id''
       = Inr \<lparr>entries = [(''ana'', JStr ''p1'')], proto = JProto\<rparr>"
  by code_simp

section \<open>Cancellation\<close>

lemma failure_fields: "success (failure m) = False" "message (failure m) = m"
  by (simp_all add: failure_def)

lemma deleteAppointment_no_match:
  assumes "truthy appointmentId" "own_open_appointment st appointmentId customerId = []"
  shows "\<not> success (fst (deleteAppointment e st appointmentId customerId date scheduleId))
         \<and> message (fst (deleteAppointment e st appointmentId customerId date scheduleId)) \<noteq> []
         \<and> snd (deleteAppointment e st appointmentId customerId date scheduleId) = st"
  using assms
  by (cases "q_mode e Q_cancel_fetch")
     (simp_all add: deleteAppointment_def deleteAppointment_try_def run_query_def single_def
       failure_fields)

text \<open>
  Claim C5. In the by-identifier mode (a truthy appointment identifier), when every
  appointment with that identifier belongs to another customer or has a status other
  than scheduled and confirmed (in particular when there is none, or it is canceled),
  \<^verbatim>\<open>deleteAppointment\<close> returns an unsuccessful result with a message and leaves the
  store as it was, however the queries go.
\<close>

theorem deleteAppointment_rejects_unknown:
  assumes "truthy appointmentId"
    and "\<forall>a \<in> set (tbl_appointments st). apt_id a = str_of appointmentId \<longrightarrow>
           apt_customer a \<noteq> customerId \<or> \<not> open_status (apt_status a)"
  shows "\<not> success (fst (deleteAppointment e st appointmentId customerId date scheduleId))
         \<and> message (fst (deleteAppointment e st appointmentId customerId date scheduleId)) \<noteq> []
         \<and> snd (deleteAppointment e st appointmentId customerId date scheduleId) = st"
proof -
  from assms(2) have "own_open_appointment st appointmentId customerId = []"
    by (auto simp: own_open_appointment_def filter_empty_conv)
  from deleteAppointment_no_match [OF assms(1) this] show ?thesis .
qed

theorem deleteAppointment_rejects_unknown_witness:
  "truthy (JStr ''apt-1'')
   \<and> map apt_status (tbl_appointments (salon [salon_booking\<lparr>apt_status := ''canceled''\<rparr>]))
       = [''canceled'']
   \<and> \<not> success (fst (deleteAppointment salon_env (salon [salon_booking\<lparr>apt_status := ''canceled''\<rparr>])
                       (JStr ''apt-1'') ''cust-1'' JUndefined ''S''))
   \<and> snd (deleteAppointment salon_env (salon [salon_booking\<lparr>apt_status := ''canceled''\<rparr>])
            (JStr ''apt-1'') ''cust-1'' JUndefined ''S'')
       = salon [salon_booking\<lparr>apt_status := ''canceled''\<rparr>]"
proof -
  have h1: "truthy (JStr ''apt-1'')" by simp
  have h2: "\<forall>a \<in> set (tbl_appointments (salon [salon_booking\<lparr>apt_status := ''canceled''\<rparr>])).
         apt_id a = str_of (JStr ''apt-1'') \<longrightarrow>
           apt_customer a \<noteq> ''cust-1'' \<or> \<not> open_status (apt_status a)"
    by (simp add: salon_def salon_booking_def open_status_def)
  have h3: "map apt_status (tbl_appointments (salon [salon_booking\<lparr>apt_status := ''canceled''\<rparr>]))
       = [''canceled'']"
    by (simp add: salon_def salon_booking_def)
  from deleteAppointment_rejects_unknown [OF h1 h2, of salon_env JUndefined "''S''"] h1 h3
  show ?thesis by blast
qed

section \<open>Times of day\<close>

lemma digit_char_is_digit: "(k::nat) < 10 \<Longrightarrow> is_digit (char_of (48 + k))"
  by (simp add: is_digit_def Let_def)

lemma digit_char_val: "(k::nat) < 10 \<Longrightarrow> digit_val (char_of (48 + k)) = k"
  by (simp add: digit_val_def)

lemma show_nat_digits: "list_all is_digit (show_nat n)"
proof (induction n rule: show_nat.induct)
  case (1 n)
  show ?case
  proof (cases "n < 10")
    case True
    then show ?thesis by (subst show_nat.simps) (simp add: digit_char_is_digit)
  next
    case False
    have "n mod 10 < 10" by simp
    with False 1 show ?thesis
      by (subst show_nat.simps) (simp add: digit_char_is_digit)
  qed
qed

lemma show_nat_nonempty: "show_nat n \<noteq> []"
  by (subst show_nat.simps) simp

lemma digits_to_nat_snoc: "digits_to_nat (xs @ [c]) = 10 * digits_to_nat xs + digit_val c"
  by (simp add: digits_to_nat_def)

lemma digits_show_nat: "digits_to_nat (show_nat n) = n"
proof (induction n rule: show_nat.induct)
  case (1 n)
  show ?case
  proof (cases "n < 10")
    case True
    then show ?thesis by (subst show_nat.simps) (simp add: digits_to_nat_def digit_char_val)
  next
    case False
    have "n mod 10 < 10" by simp
    with False 1 show ?thesis
      by (subst show_nat.simps) (simp add: digits_to_nat_snoc digit_char_val)
  qed
qed

lemma zero_is_digit: "is_digit CHR ''0''" "digit_val CHR ''0'' = 0"
  by (simp_all add: is_digit_def digit_val_def)

lemma digits_leading_zeros: "digits_to_nat (replicate k CHR ''0'' @ s) = digits_to_nat s"
proof -
  have "foldl (\<lambda>a c. 10 * a + digit_val c) 0 (replicate k CHR ''0'') = 0"
    by (induction k) (simp_all add: zero_is_digit)
  then show ?thesis by (simp add: digits_to_nat_def)
qed

lemma padded_digits: "list_all is_digit (padStart2 (show_nat n))"
  using show_nat_digits [of n]
  by (auto simp: padStart2_def list_all_iff zero_is_digit)

lemma js_Number_padded: "js_Number (padStart2 (show_nat n)) = Some (int n)"
proof -
  have ne: "padStart2 (show_nat n) \<noteq> []"
    using show_nat_nonempty [of n] by (simp add: padStart2_def)
  have "digits_to_nat (padStart2 (show_nat n)) = n"
    by (simp add: padStart2_def digits_leading_zeros digits_show_nat)
  with ne padded_digits [of n] show ?thesis
    by (simp add: js_Number_def)
qed

lemma digit_not_colon: "is_digit c \<Longrightarrow> c \<noteq> CHR '':''"
  by (auto simp: is_digit_def)

lemma split_on_absent: "c \<notin> set s \<Longrightarrow> split_on c s = [s]"
  by (induction s) auto

lemma split_on_first: "c \<notin> set h \<Longrightarrow> split_on c (h @ c # r) = h # split_on c r"
  by (induction h) auto

lemma padded_no_colon: "CHR '':'' \<notin> set (padStart2 (show_nat n))"
proof -
  have "list_all is_digit (padStart2 (show_nat n))"
    by (rule padded_digits)
  then show ?thesis by (auto simp: list_all_iff dest: digit_not_colon)
qed

lemma minutesToTime_nonneg:
  "0 \<le> n \<Longrightarrow> minutesToTime n = padStart2 (show_nat (nat (n div 60))) @ CHR '':'' # padStart2 (show_nat (nat (n mod 60)))"
proof -
  assume n: "0 \<le> n"
  then have "\<not> n div 60 < 0" "\<not> n mod 60 < 0" by (simp_all add: pos_imp_zdiv_nonneg_iff)
  with n show ?thesis
    by (simp add: minutesToTime_def Let_def js_rem_def show_int_def)
qed

lemma timeToMinutes_minutesToTime:
  assumes "0 \<le> n"
  shows "timeToMinutes (Some (minutesToTime n)) = Some n"
proof -
  have s: "split_on CHR '':'' (minutesToTime n)
            = [padStart2 (show_nat (nat (n div 60))), padStart2 (show_nat (nat (n mod 60)))]"
    by (simp add: minutesToTime_nonneg [OF assms] split_on_first padded_no_colon split_on_absent)
  have ne: "minutesToTime n \<noteq> []"
    by (simp add: minutesToTime_nonneg [OF assms])
  have "int (nat (n div 60)) * 60 + int (nat (n mod 60)) = n"
    using assms by (simp add: pos_imp_zdiv_nonneg_iff)
  then show ?thesis
    by (simp add: timeToMinutes_def ne s Let_def nth_opt_def js_Number_padded num_add_def num_mul_def)
qed

lemma js_Number_nonneg: "js_Number s = Some n \<Longrightarrow> 0 \<le> n"
  by (auto simp: js_Number_def split: if_splits)

lemma nth_opt_map_Some: "nth_opt (map f xs) i = Some y \<Longrightarrow> \<exists>x. y = f x"
  by (auto simp: nth_opt_def split: if_splits)

lemma timeToMinutes_nonneg:
  assumes "timeToMinutes x = Some n"
  shows "0 \<le> n"
proof (cases "x = None \<or> x = Some []")
  case True
  with assms show ?thesis by (auto simp: timeToMinutes_def)
next
  case False
  then obtain s where x: "x = Some s" "s \<noteq> []" by (cases x) auto
  from assms x obtain h m where hm: "n = h * 60 + m"
    and h: "nth_opt (map js_Number (split_on CHR '':'' s)) 0 = Some (Some h)"
    and m: "nth_opt (map js_Number (split_on CHR '':'' s)) 1 = Some (Some m)"
    by (auto simp: timeToMinutes_def Let_def num_add_def num_mul_def split: option.splits)
  from nth_opt_map_Some [OF h] nth_opt_map_Some [OF m]
  have "0 \<le> h" "0 \<le> m" by (auto dest: js_Number_nonneg [OF sym])
  with hm show ?thesis by simp
qed

section \<open>Free slots\<close>

lemma slot_loop_free:
  "0 \<le> slot \<Longrightarrow> set allSlots \<subseteq> free_slot_times existing
     \<Longrightarrow> set (slot_loop existing slot limit allSlots) \<subseteq> free_slot_times existing"
proof (induction existing slot limit allSlots rule: slot_loop.induct)
  case (1 existing slot limit allSlots)
  show ?case
  proof (cases "slot \<le> limit")
    case False
    with 1(3) show ?thesis by (subst slot_loop.simps) simp
  next
    case True
    let ?next = "if \<not> isOccupied existing slot \<and> minutesToTime slot \<notin> set allSlots
                 then allSlots @ [minutesToTime slot] else allSlots"
    have "set ?next \<subseteq> free_slot_times existing"
      using 1(2,3) by auto
    moreover have "0 \<le> slot + 30" using 1(2) by simp
    ultimately have "set (slot_loop existing (slot + 30) limit ?next) \<subseteq> free_slot_times existing"
      using 1(1) [OF True] by blast
    with True show ?thesis by (subst slot_loop.simps) simp
  qed
qed

lemma window_slots_free:
  "set allSlots \<subseteq> free_slot_times existing
     \<Longrightarrow> set (window_slots existing duration allSlots availability) \<subseteq> free_slot_times existing"
  by (auto simp: window_slots_def split: option.splits
      dest!: subsetD [OF slot_loop_free [OF timeToMinutes_nonneg]])

lemma all_windows_free:
  "set allSlots \<subseteq> free_slot_times existing
     \<Longrightarrow> set (foldl (window_slots existing duration) allSlots availabilities) \<subseteq> free_slot_times existing"
  by (induction availabilities arbitrary: allSlots) (simp_all add: window_slots_free)

lemma getAvailableSlots_free:
  assumes "\<forall>m. q_mode e Q_slots_appointments \<noteq> Fails m"
  shows "set (getAvailableSlots e st scheduleId date serviceId duration isByArrivalTime)
           \<subseteq> free_slot_times (Some (booked st scheduleId date))"
proof -
  have "set (sort (foldl (window_slots (Some (booked st scheduleId date)) duration) [] avs))
          \<subseteq> free_slot_times (Some (booked st scheduleId date))" for avs
    using all_windows_free [of "[]"] by simp
  with assms show ?thesis
    by (auto simp: getAvailableSlots_def getAvailableSlots_try_def run_query_def
        split: qmode.splits sum.splits if_splits outcome.splits)
qed

lemma getAvailableSlots_no_providers:
  "active_providers st scheduleId = []
     \<Longrightarrow> getAvailableSlots e st scheduleId date serviceId duration isByArrivalTime = []"
  by (simp add: getAvailableSlots_def getAvailableSlots_try_def run_query_def split: qmode.splits)

lemma getAvailableSlots_no_windows:
  "day_windows e st (active_providers st scheduleId) date = []
     \<Longrightarrow> getAvailableSlots e st scheduleId date serviceId duration isByArrivalTime = []"
  by (simp add: getAvailableSlots_def getAvailableSlots_try_def run_query_def split: qmode.splits)

lemma getAvailableSlots_thrown:
  "q_mode e Q_slots_providers = Throws m \<or> q_mode e Q_slots_availability = Throws m
     \<or> q_mode e Q_slots_appointments = Throws m
     \<Longrightarrow> getAvailableSlots e st scheduleId date serviceId duration isByArrivalTime = []"
  by (auto simp: getAvailableSlots_def getAvailableSlots_try_def run_query_def split: qmode.splits)

lemma free_slot_outside:
  assumes "t \<in> free_slot_times (Some apts)" "apt \<in> set apts"
  shows "\<not> (num_le (timeToMinutes (apt_start apt)) (timeToMinutes (Some t))
            \<and> num_gt (timeToMinutes (apt_end apt)) (timeToMinutes (Some t)))"
proof -
  from assms(1) obtain slot where s: "t = minutesToTime slot" "0 \<le> slot"
    "\<not> isOccupied (Some apts) slot"
    by auto
  from s(3) assms(2) have "\<not> (num_le (timeToMinutes (apt_start apt)) (Some slot)
            \<and> num_gt (timeToMinutes (apt_end apt)) (Some slot))"
    by (auto simp: isOccupied_def list_ex_iff)
  with s(1,2) show ?thesis by (simp add: timeToMinutes_minutesToTime)
qed

lemma availability_answer_empty:
  "success (availability_answer e date time [])"
  "available (availability_answer e date time []) = Some False"
  "available_times (availability_answer e date time []) = Some []"
  by (simp_all add: availability_answer_def Let_def slots_includes_def split: jsval.splits)

lemma checkAvailability_reaches:
  assumes "single (run_query e Q_check_schedule (schedule_by_id st scheduleId)) = Data sc"
    "service_settings e st serviceId = Inr (d, b)"
  shows "checkAvailability e st scheduleId date time serviceId tz =
           availability_answer e date time (getAvailableSlots e st scheduleId date serviceId d b)"
  using assms by (simp add: checkAvailability_def checkAvailability_try_def)

lemma service_settings_total:
  "\<forall>m. q_mode e Q_check_service \<noteq> Throws m \<Longrightarrow> \<exists>d b. service_settings e st serviceId = Inr (d, b)"
  by (cases "q_mode e Q_check_service")
     (auto simp: service_settings_def run_query_def single_def split: list.splits)

lemma single_answers:
  "q_mode e site = Answers \<Longrightarrow> single (run_query e site [x]) = Data x"
  by (simp add: run_query_def single_def)

lemma availability_answer_fields:
  "truthy time \<Longrightarrow> available (availability_answer e date time slots) = Some (slots_includes slots time)"
  "available_times (availability_answer e date time slots) = Some slots"
  by (simp_all add: availability_answer_def Let_def)

lemma failure_absent: "available (failure m) = None" "available_times (failure m) = None"
  by (simp_all add: failure_def)

lemma checkAvailability_shape:
  "(\<exists>m. checkAvailability e st scheduleId date time serviceId tz = failure m)
   \<or> (\<exists>sc d b. single (run_query e Q_check_schedule (schedule_by_id st scheduleId)) = Data sc
         \<and> service_settings e st serviceId = Inr (d, b)
         \<and> checkAvailability e st scheduleId date time serviceId tz =
             availability_answer e date time (getAvailableSlots e st scheduleId date serviceId d b))"
  by (auto simp: checkAvailability_def checkAvailability_try_def split: outcome.splits sum.splits)

lemma createAppointment_refused:
  assumes "truthy time"
    and "single (run_query e Q_check_schedule (schedule_by_id st scheduleId)) = Data sc"
    and "service_settings e st serviceId = Inr (d, b)"
    and "\<not> slots_includes (getAvailableSlots e st scheduleId date serviceId d b) time"
  shows "createAppointment e st scheduleId customerId date time serviceId notes providerId tz sess =
           (failure (''The requested time slot is not available. Available times: ''
                     @ join_with '', '' (getAvailableSlots e st scheduleId date serviceId d b)), st)"
  using assms
  by (simp add: createAppointment_def createAppointment_try_def Let_def
      checkAvailability_reaches [OF assms(2,3)] availability_answer_fields)

lemma createAppointment_check_failed:
  assumes "checkAvailability e st scheduleId date time serviceId tz = failure m"
  shows "createAppointment e st scheduleId customerId date time serviceId notes providerId tz sess =
           (failure (''Error creating appointment: Cannot read properties of undefined (reading 'join')''), st)"
  using assms
  by (simp add: createAppointment_def createAppointment_try_def Let_def failure_absent)

lemma createAppointment_no_insert:
  assumes "truthy time"
    and "\<forall>d b. service_settings e st serviceId = Inr (d, b) \<longrightarrow>
           \<not> slots_includes (getAvailableSlots e st scheduleId date serviceId d b) time"
  shows "\<not> success (fst (createAppointment e st scheduleId customerId date time serviceId notes providerId tz sess))
         \<and> snd (createAppointment e st scheduleId customerId date time serviceId notes providerId tz sess) = st"
  using checkAvailability_shape [of e st scheduleId date time serviceId tz]
proof (elim disjE exE conjE)
  fix m assume "checkAvailability e st scheduleId date time serviceId tz = failure m"
  from createAppointment_check_failed [OF this] show ?thesis by (simp add: failure_fields)
next
  fix sc d b
  assume a: "single (run_query e Q_check_schedule (schedule_by_id st scheduleId)) = Data sc"
    "service_settings e st serviceId = Inr (d, b)"
  with assms(2) have "\<not> slots_includes (getAvailableSlots e st scheduleId date serviceId d b) time"
    by blast
  from createAppointment_refused [OF assms(1) a this] show ?thesis by (simp add: failure_fields)
qed

text \<open>
  Claim C2, as amended. Unless the lookup of the existing appointments resolves with an
  error, every time \<^verbatim>\<open>getAvailableSlots\<close> returns lies outside the interval from start
  (inclusive) to end (exclusive) of every non-canceled appointment of the schedule on
  the date, whichever provider owns it; and the result is empty when the schedule has
  no active provider, and when no availability window of its providers matches the
  date's day of the week. (When that lookup does resolve with an error, the existing
  appointments are taken to be none and every candidate is offered.)
\<close>

theorem getAvailableSlots_avoids_bookings:
  assumes "\<forall>m. q_mode e Q_slots_appointments \<noteq> Fails m"
  shows "(\<forall>t \<in> set (getAvailableSlots e st scheduleId date serviceId duration isByArrivalTime).
            \<forall>apt \<in> set (booked st scheduleId date).
              \<not> (num_le (timeToMinutes (apt_start apt)) (timeToMinutes (Some t))
                 \<and> num_gt (timeToMinutes (apt_end apt)) (timeToMinutes (Some t))))
         \<and> (active_providers st scheduleId = [] \<longrightarrow>
              getAvailableSlots e st scheduleId date serviceId duration isByArrivalTime = [])
         \<and> (day_windows e st (active_providers st scheduleId) date = [] \<longrightarrow>
              getAvailableSlots e st scheduleId date serviceId duration isByArrivalTime = [])"
proof (intro conjI ballI impI)
  fix t apt
  assume "t \<in> set (getAvailableSlots e st scheduleId date serviceId duration isByArrivalTime)"
    and apt: "apt \<in> set (booked st scheduleId date)"
  with getAvailableSlots_free [OF assms] have "t \<in> free_slot_times (Some (booked st scheduleId date))"
    by blast
  from free_slot_outside [OF this apt]
  show "\<not> (num_le (timeToMinutes (apt_start apt)) (timeToMinutes (Some t))
           \<and> num_gt (timeToMinutes (apt_end apt)) (timeToMinutes (Some t)))" .
next
  assume "active_providers st scheduleId = []"
  then show "getAvailableSlots e st scheduleId date serviceId duration isByArrivalTime = []"
    by (rule getAvailableSlots_no_providers)
next
  assume "day_windows e st (active_providers st scheduleId) date = []"
  then show "getAvailableSlots e st scheduleId date serviceId duration isByArrivalTime = []"
    by (rule getAvailableSlots_no_windows)
qed

theorem getAvailableSlots_avoids_bookings_witness:
  "(\<forall>m. q_mode salon_env Q_slots_appointments \<noteq> Fails m)
   \<and> getAvailableSlots salon_env (salon [salon_booking]) ''S'' (JStr ''2024-01-08'') (JStr ''corte'')
        (Some 30) False = [''09:30'']
   \<and> booked (salon [salon_booking]) ''S'' (JStr ''2024-01-08'') = [salon_booking]
   \<and> \<not> (num_le (timeToMinutes (apt_start salon_booking)) (timeToMinutes (Some ''09:30''))
          \<and> num_gt (timeToMinutes (apt_end salon_booking)) (timeToMinutes (Some ''09:30'')))
   \<and> active_providers (salon []) ''T'' = []
   \<and> getAvailableSlots salon_env (salon []) ''T'' (JStr ''2024-01-08'') (JStr ''corte'') (Some 30) False = []
   \<and> day_windows salon_env (salon []) (active_providers (salon []) ''S'') (JStr ''2024-01-09'') = []
   \<and> getAvailableSlots salon_env (salon []) ''S'' (JStr ''2024-01-09'') (JStr ''corte'') (Some 30) False = []"
proof -
  have h: "\<forall>m. q_mode salon_env Q_slots_appointments \<noteq> Fails m"
    by (simp add: salon_env_def)
  have slots: "getAvailableSlots salon_env (salon [salon_booking]) ''S'' (JStr ''2024-01-08'')
        (JStr ''corte'') (Some 30) False = [''09:30'']"
    by code_simp
  have bk: "booked (salon [salon_booking]) ''S'' (JStr ''2024-01-08'') = [salon_booking]"
    by code_simp
  have np: "active_providers (salon []) ''T'' = []"
    by code_simp
  have nw: "day_windows salon_env (salon []) (active_providers (salon []) ''S'') (JStr ''2024-01-09'') = []"
    by code_simp
  note a = getAvailableSlots_avoids_bookings [OF h, of "salon [salon_booking]" "''S''"
             "JStr ''2024-01-08''" "JStr ''corte''" "Some 30" False]
  note b = getAvailableSlots_avoids_bookings [OF h, of "salon []" "''T''"
             "JStr ''2024-01-08''" "JStr ''corte''" "Some 30" False]
  note c = getAvailableSlots_avoids_bookings [OF h, of "salon []" "''S''"
             "JStr ''2024-01-09''" "JStr ''corte''" "Some 30" False]
  from a slots bk have 1: "\<not> (num_le (timeToMinutes (apt_start salon_booking)) (timeToMinutes (Some ''09:30''))
          \<and> num_gt (timeToMinutes (apt_end salon_booking)) (timeToMinutes (Some ''09:30'')))"
    by simp
  from b np have 2: "getAvailableSlots salon_env (salon []) ''T'' (JStr ''2024-01-08'') (JStr ''corte'') (Some 30) False = []"
    by blast
  from c nw have 3: "getAvailableSlots salon_env (salon []) ''S'' (JStr ''2024-01-09'') (JStr ''corte'') (Some 30) False = []"
    by blast
  from h slots bk np nw 1 2 3 show ?thesis by blast
qed

text \<open>
  The claim as stated fails when the appointment lookup resolves with an error: the
  booking from 09:00 to 09:30 is in the store, and 09:00 is offered all the same.
\<close>

theorem getAvailableSlots_lookup_error_counterexample:
  "salon_booking \<in> set (booked (salon [salon_booking]) ''S'' (JStr ''2024-01-08''))
   \<and> ''09:00'' \<in> set (getAvailableSlots
        (salon_env\<lparr>q_mode := (\<lambda>site. if site = Q_slots_appointments then Fails ''timeout'' else Answers)\<rparr>)
        (salon [salon_booking]) ''S'' (JStr ''2024-01-08'') (JStr ''corte'') (Some 30) False)
   \<and> num_le (timeToMinutes (apt_start salon_booking)) (timeToMinutes (Some ''09:00''))
   \<and> num_gt (timeToMinutes (apt_end salon_booking)) (timeToMinutes (Some ''09:00''))"
  by code_simp

text \<open>
  Claim C9. When the provider lookup, the availability lookup or the appointment lookup
  of \<^verbatim>\<open>getAvailableSlots\<close> throws, the function returns the empty list; a
  \<^verbatim>\<open>checkAvailability\<close> that has found its schedule and read its service then returns
  exactly the answer it gives for an empty slot list: success, not available, no
  times, with the message of a day without free slots.
\<close>

theorem getAvailableSlots_swallows_failures:
  assumes "q_mode e Q_slots_providers = Throws m \<or> q_mode e Q_slots_availability = Throws m
           \<or> q_mode e Q_slots_appointments = Throws m"
  shows "getAvailableSlots e st scheduleId date serviceId duration isByArrivalTime = []
         \<and> (single (run_query e Q_check_schedule (schedule_by_id st scheduleId)) = Data sc
              \<and> service_settings e st serviceId = Inr (d, b) \<longrightarrow>
            checkAvailability e st scheduleId date time serviceId tz = availability_answer e date time []
            \<and> success (checkAvailability e st scheduleId date time serviceId tz)
            \<and> available (checkAvailability e st scheduleId date time serviceId tz) = Some False
            \<and> available_times (checkAvailability e st scheduleId date time serviceId tz) = Some [])"
proof (intro conjI impI)
  show "getAvailableSlots e st scheduleId date serviceId duration isByArrivalTime = []"
    using assms by (rule getAvailableSlots_thrown)
next
  assume a: "single (run_query e Q_check_schedule (schedule_by_id st scheduleId)) = Data sc
              \<and> service_settings e st serviceId = Inr (d, b)"
  have "checkAvailability e st scheduleId date time serviceId tz =
          availability_answer e date time (getAvailableSlots e st scheduleId date serviceId d b)"
    using a by (simp add: checkAvailability_reaches)
  then have c: "checkAvailability e st scheduleId date time serviceId tz = availability_answer e date time []"
    by (simp add: getAvailableSlots_thrown [OF assms])
  show "checkAvailability e st scheduleId date time serviceId tz = availability_answer e date time []"
    "success (checkAvailability e st scheduleId date time serviceId tz)"
    "available (checkAvailability e st scheduleId date time serviceId tz) = Some False"
    "available_times (checkAvailability e st scheduleId date time serviceId tz) = Some []"
    by (simp_all add: c availability_answer_empty)
qed

theorem getAvailableSlots_swallows_failures_witness:
  "(q_mode (salon_env\<lparr>q_mode := (\<lambda>site. if site = Q_slots_providers then Throws ''fetch failed'' else Answers)\<rparr>)
       Q_slots_providers = Throws ''fetch failed''
    \<or> q_mode (salon_env\<lparr>q_mode := (\<lambda>site. if site = Q_slots_providers then Throws ''fetch failed'' else Answers)\<rparr>)
       Q_slots_availability = Throws ''fetch failed''
    \<or> q_mode (salon_env\<lparr>q_mode := (\<lambda>site. if site = Q_slots_providers then Throws ''fetch failed'' else Answers)\<rparr>)
       Q_slots_appointments = Throws ''fetch failed'')
   \<and> getAvailableSlots
        (salon_env\<lparr>q_mode := (\<lambda>site. if site = Q_slots_providers then Throws ''fetch failed'' else Answers)\<rparr>)
        (salon []) ''S'' (JStr ''2024-01-08'') (JStr ''corte'') (Some 30) False = []
   \<and> success (checkAvailability
        (salon_env\<lparr>q_mode := (\<lambda>site. if site = Q_slots_providers then Throws ''fetch failed'' else Answers)\<rparr>)
        (salon []) ''S'' (JStr ''2024-01-08'') JUndefined (JStr ''corte'') ''America/Sao_Paulo'')
   \<and> checkAvailability
        (salon_env\<lparr>q_mode := (\<lambda>site. if site = Q_slots_providers then Throws ''fetch failed'' else Answers)\<rparr>)
        (salon []) ''S'' (JStr ''2024-01-08'') JUndefined (JStr ''corte'') ''America/Sao_Paulo''
     = checkAvailability salon_env
        (salon [salon_booking,
                salon_booking\<lparr>apt_id := ''apt-0'', apt_start := Some ''09:30'', apt_end := Some ''10:00''\<rparr>])
        ''S'' (JStr ''2024-01-08'') JUndefined (JStr ''corte'') ''America/Sao_Paulo''"
proof -
  let ?e = "salon_env\<lparr>q_mode := (\<lambda>site. if site = Q_slots_providers then Throws ''fetch failed'' else Answers)\<rparr>"
  have h: "q_mode ?e Q_slots_providers = Throws ''fetch failed''
           \<or> q_mode ?e Q_slots_availability = Throws ''fetch failed''
           \<or> q_mode ?e Q_slots_appointments = Throws ''fetch failed''"
    by simp
  have reach: "single (run_query ?e Q_check_schedule (schedule_by_id (salon []) ''S''))
                 = Data (hd (tbl_schedules (salon [])))
               \<and> service_settings ?e (salon []) (JStr ''corte'') = Inr (Some 30, False)"
    by code_simp
  have full: "checkAvailability salon_env
        (salon [salon_booking,
                salon_booking\<lparr>apt_id := ''apt-0'', apt_start := Some ''09:30'', apt_end := Some ''10:00''\<rparr>])
        ''S'' (JStr ''2024-01-08'') JUndefined (JStr ''corte'') ''America/Sao_Paulo''
      = availability_answer ?e (JStr ''2024-01-08'') JUndefined []"
    by code_simp
  note t = getAvailableSlots_swallows_failures [OF h, of "salon []" "''S''" "JStr ''2024-01-08''"
             "JStr ''corte''" "Some 30" False "hd (tbl_schedules (salon []))" "Some 30" False
             JUndefined "''America/Sao_Paulo''"]
  let ?chk = "checkAvailability ?e (salon []) ''S'' (JStr ''2024-01-08'') JUndefined (JStr ''corte'')
                ''America/Sao_Paulo''"
  from t have 1: "getAvailableSlots ?e (salon []) ''S'' (JStr ''2024-01-08'') (JStr ''corte'')
                    (Some 30) False = []" by blast
  from t reach have 2: "?chk = availability_answer ?e (JStr ''2024-01-08'') JUndefined []"
    and 3: "success ?chk" by blast+
  from 2 full have 4: "?chk = checkAvailability salon_env
        (salon [salon_booking,
                salon_booking\<lparr>apt_id := ''apt-0'', apt_start := Some ''09:30'', apt_end := Some ''10:00''\<rparr>])
        ''S'' (JStr ''2024-01-08'') JUndefined (JStr ''corte'') ''America/Sao_Paulo''"
    by (rule trans [OF _ sym])
  from h 1 3 4 show ?thesis by blast
qed

text \<open>
  Claim C1 fails on the code. At a requested time that is supplied and absent from the
  computed slot list, \<^verbatim>\<open>createAppointment\<close> is unsuccessful and inserts no row (the three
  lemmas above), and it names the available times whenever its availability check got
  as far as the slot list. When the check itself fails, its result has no
  \<^verbatim>\<open>available_times\<close>, and \<^verbatim>\<open>createAppointment\<close> reads \<^verbatim>\<open>.available_times.join\<close> on it all
  the same: with the 09:00 slot booked, 09:30 free and the lookup of the schedule
  resolving with an error, the message is that of the \<^verbatim>\<open>TypeError\<close> and names no time.
\<close>

theorem createAppointment_unavailable_message:
  "truthy (JStr ''09:00'')
   \<and> getAvailableSlots (salon_env\<lparr>q_mode := (\<lambda>site. if site = Q_check_schedule then Fails ''timeout''
                                                    else Answers)\<rparr>)
        (salon [salon_booking]) ''S'' (JStr ''2024-01-08'') (JStr ''corte'') (Some 30) False
       = [''09:30'']
   \<and> \<not> slots_includes [''09:30''] (JStr ''09:00'')
   \<and> checkAvailability (salon_env\<lparr>q_mode := (\<lambda>site. if site = Q_check_schedule then Fails ''timeout''
                                                    else Answers)\<rparr>)
        (salon [salon_booking]) ''S'' (JStr ''2024-01-08'') (JStr ''09:00'') (JStr ''corte'')
        ''America/Sao_Paulo''
       = failure ''Schedule not found with ID S''
   \<and> fst (createAppointment (salon_env\<lparr>q_mode := (\<lambda>site. if site = Q_check_schedule
                                                          then Fails ''timeout'' else Answers)\<rparr>)
             (salon [salon_booking]) ''S'' ''cust-2'' (JStr ''2024-01-08'') (JStr ''09:00'')
             (JStr ''corte'') JUndefined JUndefined ''America/Sao_Paulo'' salon_session)
       = failure ''Error creating appointment: Cannot read properties of undefined (reading 'join')''
   \<and> tbl_appointments
        (snd (createAppointment (salon_env\<lparr>q_mode := (\<lambda>site. if site = Q_check_schedule
                                                               then Fails ''timeout'' else Answers)\<rparr>)
                (salon [salon_booking]) ''S'' ''cust-2'' (JStr ''2024-01-08'') (JStr ''09:00'')
                (JStr ''corte'') JUndefined JUndefined ''America/Sao_Paulo'' salon_session))
       = [salon_booking]
   \<and> fst (createAppointment salon_env (salon [salon_booking]) ''S'' ''cust-2'' (JStr ''2024-01-08'')
             (JStr ''09:00'') (JStr ''corte'') JUndefined JUndefined ''America/Sao_Paulo''
             salon_session)
       = failure ''The requested time slot is not available. Available times: 09:30''"
  by code_simp

section \<open>Dispatch results and the arguments object\<close>

lemma error_result_envelope: "is_envelope (error_result m)"
  by (simp add: is_envelope_def error_result_def)

lemma run_operation_early:
  "run_operation e st scheduleId args sess tz = (Inl r, st') \<Longrightarrow> is_envelope r"
  by (auto simp: run_operation_def Let_def error_result_envelope split: if_splits prod.splits)

lemma processCheckScheduleAction_envelope:
  "is_envelope (fst (processCheckScheduleAction e st scheduleId args sess))"
  by (auto simp: processCheckScheduleAction_def processCheckScheduleAction_try_def Let_def
      error_result_def is_envelope_def split: sum.splits prod.splits
      dest!: run_operation_early)

lemma arg_lower_Inr: "arg_lower args k = Inr l \<Longrightarrow> \<exists>n. obj_get args k = JStr n \<and> l = toLowerCase n"
  by (auto simp: arg_lower_def split: jsval.splits)

lemmas resolver_splits = option.splits outcome.splits sum.splits if_splits qmode.splits

lemma written_refl: "only_resolved_written a a"
  by simp

lemma written_update:
  "k \<in> set resolved_keys \<Longrightarrow> truthy v \<Longrightarrow> only_resolved_written a (AList.update k v a)"
  by (auto simp: update_conv')

lemma written_trans:
  "only_resolved_written a b \<Longrightarrow> only_resolved_written b c \<Longrightarrow> only_resolved_written a c"
  by (intro conjI allI ballI impI) (metis+)

lemma resolve_service_effect:
  assumes "resolve_service e sess sid s = (r, s1)"
  shows "ds_store s1 = ds_store s"
    and "\<And>t. r = Return t \<Longrightarrow> is_envelope t"
    and "ds_args s1 = ds_args s
         \<or> (\<exists>m n. obj_get (ds_args s) ''service_name'' = JStr n \<and> truthy (map_get m (toLowerCase n))
              \<and> ds_args s1 = AList.update ''service_id'' (map_get m (toLowerCase n)) (ds_args s))"
    and "\<And>u. r = Next u \<Longrightarrow> truthy (obj_get (ds_args s) ''service_name'')
         \<Longrightarrow> \<exists>m n. obj_get (ds_args s) ''service_name'' = JStr n \<and> truthy (map_get m (toLowerCase n))
              \<and> ds_args s1 = AList.update ''service_id'' (map_get m (toLowerCase n)) (ds_args s)"
  using assms
  by (auto simp: resolve_service_def run_query_def error_result_envelope split: resolver_splits
      dest!: arg_lower_Inr)

lemma resolve_provider_effect:
  assumes "resolve_provider e sess sid s = (r, s1)"
  shows "ds_store s1 = ds_store s"
    and "\<And>t. r = Return t \<Longrightarrow> is_envelope t"
    and "ds_args s1 = ds_args s
         \<or> (\<exists>m n. obj_get (ds_args s) ''provider_name'' = JStr n \<and> truthy (map_get m (toLowerCase n))
              \<and> ds_args s1 = AList.update ''provider_id'' (map_get m (toLowerCase n)) (ds_args s))"
  using assms
  by (auto simp: resolve_provider_def run_query_def error_result_envelope split: resolver_splits
      dest!: arg_lower_Inr)

lemma resolve_team_effect:
  assumes "resolve_team e sess s = (r, s1)"
  shows "ds_store s1 = ds_store s"
    and "\<And>t. r = Return t \<Longrightarrow> is_envelope t"
    and "ds_args s1 = ds_args s
         \<or> (\<exists>m n. obj_get (ds_args s) ''team_name'' = JStr n \<and> truthy (map_get m (toLowerCase n))
              \<and> ds_args s1 = AList.update ''team_id'' (map_get m (toLowerCase n)) (ds_args s))"
  using assms
  by (auto simp: resolve_team_def run_query_def error_result_envelope split: resolver_splits
      dest!: arg_lower_Inr)

lemma resolve_flow_effect:
  assumes "resolve_flow e sess s = (r, s1)"
  shows "ds_store s1 = ds_store s"
    and "\<And>t. r = Return t \<Longrightarrow> is_envelope t"
    and "ds_args s1 = ds_args s
         \<or> (\<exists>m n. obj_get (ds_args s) ''flow_name'' = JStr n \<and> truthy (map_get m (toLowerCase n))
              \<and> ds_args s1 = AList.update ''flow_id'' (map_get m (toLowerCase n)) (ds_args s))"
    and "\<And>u. r = Next u
         \<Longrightarrow> \<exists>m n. obj_get (ds_args s) ''flow_name'' = JStr n \<and> truthy (map_get m (toLowerCase n))
              \<and> ds_args s1 = AList.update ''flow_id'' (map_get m (toLowerCase n)) (ds_args s)"
  using assms
  by (auto simp: resolve_flow_def run_query_def error_result_envelope split: resolver_splits
      dest!: arg_lower_Inr)

lemma resolver_written:
  assumes "ds_args s1 = a \<or> (\<exists>m n. P m n \<and> truthy (map_get m (toLowerCase n))
              \<and> ds_args s1 = AList.update k (map_get m (toLowerCase n)) a)"
    and "k \<in> set resolved_keys"
  shows "only_resolved_written a (ds_args s1)"
  using assms(1)
proof (elim disjE exE conjE)
  assume "ds_args s1 = a" then show ?thesis by simp
next
  fix m n assume "truthy (map_get m (toLowerCase n))"
    "ds_args s1 = AList.update k (map_get m (toLowerCase n)) a"
  with written_update [OF assms(2), of "map_get m (toLowerCase n)" a] show ?thesis by simp
qed

lemma schedule_case_effect:
  assumes "schedule_case e action sess s = (x, s')"
  shows "(\<forall>r. x = Inr r \<longrightarrow> is_envelope r) \<and> only_resolved_written (ds_args s) (ds_args s')"
proof (cases "\<exists>cfg sc rest. action_config action = Some cfg \<and> or_default (cfg_schedule cfg) [] \<noteq> []
          \<and> run_query e Q_dispatch_schedule
               (active_schedule (ds_store s) (organization_id sess) (or_default (cfg_schedule cfg) []))
             = Data (sc # rest)")
  case False
  with assms have "s' = s \<and> (\<forall>r. x = Inr r \<longrightarrow> is_envelope r)"
    by (auto simp: schedule_case_def error_result_envelope split: option.splits if_splits
        outcome.splits list.splits)
  then show ?thesis by simp
next
  case True
  then obtain cfg sc rest where c: "action_config action = Some cfg"
    "or_default (cfg_schedule cfg) [] \<noteq> []"
    "run_query e Q_dispatch_schedule
       (active_schedule (ds_store s) (organization_id sess) (or_default (cfg_schedule cfg) []))
     = Data (sc # rest)" by blast
  obtain r1 s1 where r1: "resolve_service e sess (sched_id sc) s = (r1, s1)" by fastforce
  obtain r2 s2 where r2: "resolve_provider e sess (sched_id sc) s1 = (r2, s2)" by fastforce
  have w1: "only_resolved_written (ds_args s) (ds_args s1)"
    by (rule resolver_written [OF resolve_service_effect(3) [OF r1]]) (simp add: resolved_keys_def)
  have w2: "only_resolved_written (ds_args s1) (ds_args s2)"
    by (rule resolver_written [OF resolve_provider_effect(3) [OF r2]]) (simp add: resolved_keys_def)
  have w12: "only_resolved_written (ds_args s) (ds_args s2)"
    by (rule written_trans [OF w1 w2])
  show ?thesis
  proof (cases r1)
    case (Raise m)
    with assms c r1 have "x = Inl m" "s' = s1" by (simp_all add: schedule_case_def of_step_def)
    with w1 show ?thesis by simp
  next
    case (Return t)
    with assms c r1 have "x = Inr t" "s' = s1" by (simp_all add: schedule_case_def of_step_def)
    with w1 resolve_service_effect(2) [OF r1 Return] show ?thesis by simp
  next
    case (Next u)
    show ?thesis
    proof (cases r2)
      case (Raise m)
      with assms c r1 r2 Next have "x = Inl m" "s' = s2"
        by (simp_all add: schedule_case_def of_step_def)
      with w12 show ?thesis by simp
    next
      case (Return t)
      with assms c r1 r2 Next have "x = Inr t" "s' = s2"
        by (simp_all add: schedule_case_def of_step_def)
      with w12 resolve_provider_effect(2) [OF r2 Return] show ?thesis by simp
    next
      case n2: (Next u2)
      with assms c r1 r2 Next
      have "x = Inr (fst (processCheckScheduleAction e (ds_store s2) (sched_id sc) (ds_args s2) sess))"
        "ds_args s' = ds_args s2"
        by (auto simp: schedule_case_def of_step_def split: prod.splits)
      with w12 processCheckScheduleAction_envelope show ?thesis by simp
    qed
  qed
qed

lemma update_chat_case_effect:
  assumes "update_chat_case ex e sess s = (x, s')"
  shows "((\<forall>a ar se r. processUpdateChatAction ex a ar se = Inr r \<longrightarrow> is_envelope r)
            \<longrightarrow> (\<forall>r. x = Inr r \<longrightarrow> is_envelope r))
         \<and> only_resolved_written (ds_args s) (ds_args s')"
proof -
  obtain r1 s1 where r1: "resolve_team e sess s = (r1, s1)" by fastforce
  have w1: "only_resolved_written (ds_args s) (ds_args s1)"
    by (rule resolver_written [OF resolve_team_effect(3) [OF r1]]) (simp add: resolved_keys_def)
  show ?thesis
  proof (cases r1)
    case (Raise m)
    with assms r1 have "x = Inl m" "s' = s1" by (simp_all add: update_chat_case_def of_step_def)
    with w1 show ?thesis by simp
  next
    case (Return t)
    with assms r1 have "x = Inr t" "s' = s1" by (simp_all add: update_chat_case_def of_step_def)
    with w1 resolve_team_effect(2) [OF r1 Return] show ?thesis by simp
  next
    case (Next u)
    with assms(1) r1 have "\<exists>a. x = processUpdateChatAction ex a (ds_args s1) sess" "s' = s1"
      by (auto simp: update_chat_case_def of_step_def)
    with w1 show ?thesis by auto
  qed
qed

lemma start_flow_case_effect:
  assumes "start_flow_case ex e sess s = (x, s')"
  shows "((\<forall>a ar se r. processStartFlowAction ex a ar se = Inr r \<longrightarrow> is_envelope r)
            \<longrightarrow> (\<forall>r. x = Inr r \<longrightarrow> is_envelope r))
         \<and> only_resolved_written (ds_args s) (ds_args s')"
proof -
  obtain r1 s1 where r1: "resolve_flow e sess s = (r1, s1)" by fastforce
  have w1: "only_resolved_written (ds_args s) (ds_args s1)"
    by (rule resolver_written [OF resolve_flow_effect(3) [OF r1]]) (simp add: resolved_keys_def)
  show ?thesis
  proof (cases r1)
    case (Raise m)
    with assms r1 have "x = Inl m" "s' = s1" by (simp_all add: start_flow_case_def of_step_def)
    with w1 show ?thesis by simp
  next
    case (Return t)
    with assms r1 have "x = Inr t" "s' = s1" by (simp_all add: start_flow_case_def of_step_def)
    with w1 resolve_flow_effect(2) [OF r1 Return] show ?thesis by simp
  next
    case (Next u)
    with assms(1) r1 have "\<exists>a. x = processStartFlowAction ex a (ds_args s1) sess" "s' = s1"
      by (auto simp: start_flow_case_def of_step_def)
    with w1 show ?thesis by auto
  qed
qed

lemma handleSystemToolCall_try_effect:
  assumes "handleSystemToolCall_try ex e tool acts sess s = (x, s')"
  shows "((\<forall>a ar se r. processUpdateCustomerAction ex a ar se = Inr r \<longrightarrow> is_envelope r)
          \<and> (\<forall>a ar se r. processUpdateChatAction ex a ar se = Inr r \<longrightarrow> is_envelope r)
          \<and> (\<forall>a ar se r. processStartFlowAction ex a ar se = Inr r \<longrightarrow> is_envelope r)
            \<longrightarrow> (\<forall>r. x = Inr r \<longrightarrow> is_envelope r))
         \<and> only_resolved_written (ds_args s) (ds_args s')"
proof (cases "find_action acts tool")
  case (Inl m)
  with assms(1) show ?thesis by (auto simp: handleSystemToolCall_try_def)
next
  case (Inr found)
  show ?thesis
  proof (cases found)
    case None
    with Inr assms(1) show ?thesis by (auto simp: handleSystemToolCall_try_def)
  next
    case (Some action)
    consider (sched) "action_type action = ''schedule''"
      | (cust) "action_type action = ''update_customer''"
      | (chat) "action_type action = ''update_chat''"
      | (flow) "action_type action = ''start_flow''"
      | (other) "action_type action \<noteq> ''schedule''" "action_type action \<noteq> ''update_customer''"
          "action_type action \<noteq> ''update_chat''" "action_type action \<noteq> ''start_flow''"
      by blast
    then show ?thesis
    proof cases
      case sched
      with Inr Some assms(1) have "schedule_case e action sess s = (x, s')"
        by (simp add: handleSystemToolCall_try_def)
      from schedule_case_effect [OF this] show ?thesis by blast
    next
      case cust
      with Inr Some assms(1) have "update_customer_case ex sess s = (x, s')"
        by (simp add: handleSystemToolCall_try_def)
      then show ?thesis by (auto simp: update_customer_case_def)
    next
      case chat
      with Inr Some assms(1) have "update_chat_case ex e sess s = (x, s')"
        by (simp add: handleSystemToolCall_try_def)
      from update_chat_case_effect [OF this] show ?thesis by blast
    next
      case flow
      with Inr Some assms(1) have "start_flow_case ex e sess s = (x, s')"
        by (simp add: handleSystemToolCall_try_def)
      from start_flow_case_effect [OF this] show ?thesis by blast
    next
      case other
      with Inr Some assms(1) show ?thesis
        by (auto simp: handleSystemToolCall_try_def error_result_envelope)
    qed
  qed
qed

lemma getCachedMap_other_type:
  "sid \<noteq> [] \<Longrightarrow>
   getCachedMap (setCachedMap c org Services m (Some sid) now) org' Providers k t
     = getCachedMap c org' Providers k t"
  by (auto simp: getCachedMap_def setCachedMap_def Let_def put_bucket_def bucket_of_def
      per_schedule_def key_given_def empty_bucket_def split: option.splits)

lemma lookup_name_truthy: "lookup_name args k mp = Some v \<Longrightarrow> truthy v"
  by (auto simp: lookup_name_def split: option.splits jsval.splits if_splits)

lemma lookup_name_given: "lookup_name args k mp = Some v \<Longrightarrow> truthy (obj_get args k)"
  by (auto simp: lookup_name_def split: option.splits jsval.splits if_splits)

lemma obj_get_update: "k' \<noteq> k \<Longrightarrow> obj_get (AList.update k' v args) k = obj_get args k"
  by (simp add: obj_get_def update_conv')

lemma lookup_name_update:
  "k' \<noteq> k \<Longrightarrow> lookup_name (AList.update k' v args) k mp = lookup_name args k mp"
  by (simp add: lookup_name_def obj_get_update split: option.splits)

lemma resolve_service_args:
  assumes "resolve_service e sess sid s = (r, s1)"
  shows "ds_args s1 = with_id ''service_id''
           (lookup_name (ds_args s) ''service_name''
              (map_in_use e (ds_cache s) (organization_id sess) Services (Some sid) Q_dispatch_services
                 (service_rows (ds_store s) sid) ''title'')) (ds_args s)"
    and "(\<exists>u. r = Next u) =
         (\<not> truthy (obj_get (ds_args s) ''service_name'')
          \<or> lookup_name (ds_args s) ''service_name''
              (map_in_use e (ds_cache s) (organization_id sess) Services (Some sid) Q_dispatch_services
                 (service_rows (ds_store s) sid) ''title'') \<noteq> None)"
    and "sid \<noteq> [] \<Longrightarrow> getCachedMap (ds_cache s1) (organization_id sess) Providers k t
           = getCachedMap (ds_cache s) (organization_id sess) Providers k t"
  using assms
  by (auto simp: resolve_service_def run_query_def map_in_use_def lookup_name_def with_id_def
      arg_lower_def getCachedMap_other_type
      split: option.splits outcome.splits sum.splits if_splits qmode.splits jsval.splits)

lemma resolve_provider_args:
  assumes "resolve_provider e sess sid s = (r, s1)"
  shows "ds_args s1 = with_id ''provider_id''
           (lookup_name (ds_args s) ''provider_name''
              (map_in_use e (ds_cache s) (organization_id sess) Providers (Some sid) Q_dispatch_providers
                 (profile_rows (ds_store s) sid) ''full_name'')) (ds_args s)"
  using assms
  by (auto simp: resolve_provider_def run_query_def map_in_use_def lookup_name_def with_id_def
      arg_lower_def
      split: option.splits outcome.splits sum.splits if_splits qmode.splits jsval.splits)

lemma resolve_team_args:
  assumes "resolve_team e sess s = (r, s1)"
  shows "ds_args s1 = with_id ''team_id''
           (lookup_name (ds_args s) ''team_name''
              (map_in_use e (ds_cache s) (organization_id sess) Teams None Q_dispatch_teams
                 (team_rows (ds_store s) (organization_id sess)) ''name'')) (ds_args s)"
  using assms
  by (auto simp: resolve_team_def run_query_def map_in_use_def lookup_name_def with_id_def
      arg_lower_def
      split: option.splits outcome.splits sum.splits if_splits qmode.splits jsval.splits)

lemma resolve_flow_args:
  assumes "resolve_flow e sess s = (r, s1)"
  shows "ds_args s1 = with_id ''flow_id''
           (lookup_name (ds_args s) ''flow_name''
              (map_in_use e (ds_cache s) (organization_id sess) Flows None Q_dispatch_flows
                 (flow_rows (ds_store s) (organization_id sess)) ''name'')) (ds_args s)"
  using assms
  by (auto simp: resolve_flow_def run_query_def map_in_use_def lookup_name_def with_id_def
      arg_lower_def
      split: option.splits outcome.splits sum.splits if_splits qmode.splits jsval.splits)

lemma map_in_use_cache:
  "(\<And>t. getCachedMap c' org ty k t = getCachedMap c org ty k t) \<Longrightarrow>
   map_in_use e c' org ty k site rows nk = map_in_use e c org ty k site rows nk"
  by (simp add: map_in_use_def)

lemma active_schedule_id: "sc \<in> set (active_schedule st org sid) \<Longrightarrow> sched_id sc = sid"
  by (simp add: active_schedule_def)

lemma schedule_case_args:
  assumes "schedule_case e action sess s = (x, s')" "action_type action = ''schedule''"
  shows "ds_args s' = resolved_args e sess s action"
proof (cases "\<exists>cfg sc rest. action_config action = Some cfg \<and> or_default (cfg_schedule cfg) [] \<noteq> []
          \<and> run_query e Q_dispatch_schedule
               (active_schedule (ds_store s) (organization_id sess) (or_default (cfg_schedule cfg) []))
             = Data (sc # rest)")
  case False
  with assms show ?thesis
    by (auto simp: schedule_case_def resolved_args_def Let_def split: option.splits if_splits
        outcome.splits list.splits)
next
  case True
  then obtain cfg sc rest where c: "action_config action = Some cfg"
    "or_default (cfg_schedule cfg) [] \<noteq> []"
    "run_query e Q_dispatch_schedule
       (active_schedule (ds_store s) (organization_id sess) (or_default (cfg_schedule cfg) []))
     = Data (sc # rest)" by blast
  let ?org = "organization_id sess"
  let ?sid = "sched_id sc"
  let ?service = "lookup_name (ds_args s) ''service_name''
      (map_in_use e (ds_cache s) ?org Services (Some ?sid) Q_dispatch_services
         (service_rows (ds_store s) ?sid) ''title'')"
  let ?provider = "lookup_name (ds_args s) ''provider_name''
      (map_in_use e (ds_cache s) ?org Providers (Some ?sid) Q_dispatch_providers
         (profile_rows (ds_store s) ?sid) ''full_name'')"
  from c(3) have "sc \<in> set (active_schedule (ds_store s) ?org (or_default (cfg_schedule cfg) []))"
    by (auto simp: run_query_def split: qmode.splits)
  with c(2) have sid: "?sid \<noteq> []" by (simp add: active_schedule_id)
  have goal: "resolved_args e sess s action =
      (if truthy (obj_get (ds_args s) ''service_name'') \<and> ?service = None then ds_args s
       else with_id ''provider_id'' ?provider (with_id ''service_id'' ?service (ds_args s)))"
    using c assms(2) by (simp add: resolved_args_def Let_def)
  obtain r1 s1 where r1: "resolve_service e sess ?sid s = (r1, s1)" by fastforce
  obtain r2 s2 where r2: "resolve_provider e sess ?sid s1 = (r2, s2)" by fastforce
  note a1 = resolve_service_args(1) [OF r1]
  note n1 = resolve_service_args(2) [OF r1]
  have st1: "ds_store s1 = ds_store s" by (rule resolve_service_effect(1) [OF r1])
  have "map_in_use e (ds_cache s1) ?org Providers (Some ?sid) Q_dispatch_providers
         (profile_rows (ds_store s) ?sid) ''full_name''
        = map_in_use e (ds_cache s) ?org Providers (Some ?sid) Q_dispatch_providers
         (profile_rows (ds_store s) ?sid) ''full_name''"
    by (rule map_in_use_cache) (rule resolve_service_args(3) [OF r1 sid])
  with resolve_provider_args [OF r2] st1
  have a2: "ds_args s2 = with_id ''provider_id''
      (lookup_name (ds_args s1) ''provider_name''
        (map_in_use e (ds_cache s) ?org Providers (Some ?sid) Q_dispatch_providers
           (profile_rows (ds_store s) ?sid) ''full_name'')) (ds_args s1)"
    by simp
  have prov: "lookup_name (ds_args s1) ''provider_name'' mp = lookup_name (ds_args s) ''provider_name'' mp" for mp
    unfolding a1 by (cases ?service) (simp_all add: with_id_def lookup_name_update)
  from a2 [unfolded prov]
  have a2': "ds_args s2 = with_id ''provider_id'' ?provider (with_id ''service_id'' ?service (ds_args s))"
    unfolding a1 .
  show ?thesis
  proof (cases "\<exists>u. r1 = Next u")
    case False
    with n1 have stop: "truthy (obj_get (ds_args s) ''service_name'')" "?service = None" by auto
    from False assms(1) c r1 have "s' = s1"
      by (cases r1) (auto simp: schedule_case_def of_step_def)
    with a1 stop show ?thesis unfolding goal by (simp add: with_id_def)
  next
    case True
    then obtain u where u: "r1 = Next u" by blast
    with n1 have go: "\<not> (truthy (obj_get (ds_args s) ''service_name'') \<and> ?service = None)" by auto
    from u assms(1) c r1 r2 have "ds_args s' = ds_args s2"
      by (cases r2) (auto simp: schedule_case_def of_step_def split: prod.splits)
    with a2' show ?thesis unfolding goal if_not_P [OF go] by simp
  qed
qed

lemma update_chat_case_args:
  assumes "update_chat_case ex e sess s = (x, s')"
  shows "ds_args s' = with_id ''team_id''
           (lookup_name (ds_args s) ''team_name''
              (map_in_use e (ds_cache s) (organization_id sess) Teams None Q_dispatch_teams
                 (team_rows (ds_store s) (organization_id sess)) ''name'')) (ds_args s)"
proof -
  obtain r1 s1 where r1: "resolve_team e sess s = (r1, s1)" by fastforce
  from assms r1 have "s' = s1" by (cases r1) (auto simp: update_chat_case_def of_step_def)
  with resolve_team_args [OF r1] show ?thesis by simp
qed

lemma start_flow_case_args:
  assumes "start_flow_case ex e sess s = (x, s')"
  shows "ds_args s' = with_id ''flow_id''
           (lookup_name (ds_args s) ''flow_name''
              (map_in_use e (ds_cache s) (organization_id sess) Flows None Q_dispatch_flows
                 (flow_rows (ds_store s) (organization_id sess)) ''name'')) (ds_args s)"
proof -
  obtain r1 s1 where r1: "resolve_flow e sess s = (r1, s1)" by fastforce
  from assms r1 have "s' = s1" by (cases r1) (auto simp: start_flow_case_def of_step_def)
  with resolve_flow_args [OF r1] show ?thesis by simp
qed

lemma handleSystemToolCall_try_args:
  assumes "handleSystemToolCall_try ex e tool acts sess s = (x, s')"
  shows "ds_args s' =
           (case find_action acts tool of
              Inr (Some action) \<Rightarrow> resolved_args e sess s action
            | _ \<Rightarrow> ds_args s)"
proof (cases "find_action acts tool")
  case (Inl m)
  with assms show ?thesis by (auto simp: handleSystemToolCall_try_def)
next
  case (Inr found)
  show ?thesis
  proof (cases found)
    case None
    with Inr assms show ?thesis by (auto simp: handleSystemToolCall_try_def)
  next
    case (Some action)
    consider (sched) "action_type action = ''schedule''"
      | (cust) "action_type action = ''update_customer''"
      | (chat) "action_type action = ''update_chat''"
      | (flow) "action_type action = ''start_flow''"
      | (other) "action_type action \<noteq> ''schedule''" "action_type action \<noteq> ''update_customer''"
          "action_type action \<noteq> ''update_chat''" "action_type action \<noteq> ''start_flow''"
      by blast
    then show ?thesis
    proof cases
      case sched
      with Inr Some assms have "schedule_case e action sess s = (x, s')"
        by (simp add: handleSystemToolCall_try_def)
      from schedule_case_args [OF this sched] Inr Some show ?thesis by simp
    next
      case cust
      with Inr Some assms have "update_customer_case ex sess s = (x, s')"
        by (simp add: handleSystemToolCall_try_def)
      with Inr Some cust show ?thesis
        by (auto simp: update_customer_case_def resolved_args_def Let_def)
    next
      case chat
      with Inr Some assms have "update_chat_case ex e sess s = (x, s')"
        by (simp add: handleSystemToolCall_try_def)
      from update_chat_case_args [OF this] Inr Some chat show ?thesis
        by (simp add: resolved_args_def Let_def)
    next
      case flow
      with Inr Some assms have "start_flow_case ex e sess s = (x, s')"
        by (simp add: handleSystemToolCall_try_def)
      from start_flow_case_args [OF this] Inr Some flow show ?thesis
        by (simp add: resolved_args_def Let_def)
    next
      case other
      with Inr Some assms show ?thesis
        by (auto simp: handleSystemToolCall_try_def resolved_args_def Let_def)
    qed
  qed
qed

text \<open>
  Claim C4, as amended. \<^verbatim>\<open>handleSystemToolCall\<close> never lets an exception reach the caller:
  every call returns a result object, and with executors that return result envelopes
  the result has status \<^verbatim>\<open>success\<close> or \<^verbatim>\<open>error\<close> and a message. A failure that reaches
  the dispatcher's own handler (the \<^verbatim>\<open>try\<close> block raises) is turned into status
  \<^verbatim>\<open>error\<close> with the message \<^verbatim>\<open>Error processing system tool\<close>, the tool name and the
  failure's message: so for a tool name that matches no configured action, and for a
  throwing lookup of the configured schedule. A failure raised inside a scheduling
  operation is handled by that operation and does not reach this handler.
\<close>

theorem handleSystemToolCall_returns_envelope:
  assumes "\<forall>a ar se r. processUpdateCustomerAction ex a ar se = Inr r \<longrightarrow> is_envelope r"
    and "\<forall>a ar se r. processUpdateChatAction ex a ar se = Inr r \<longrightarrow> is_envelope r"
    and "\<forall>a ar se r. processStartFlowAction ex a ar se = Inr r \<longrightarrow> is_envelope r"
  shows "\<exists>r. fst (handleSystemToolCall ex e tool acts sess s) = Inr r \<and> is_envelope r
           \<and> (\<forall>m. fst (handleSystemToolCall_try ex e tool acts sess s) = Inl m \<longrightarrow>
                  r = error_result (''Error processing system tool '' @ tool @ '': '' @ m))
           \<and> (find_action acts tool = Inr None \<longrightarrow>
                  r = error_result (''Error processing system tool '' @ tool
                        @ '': Cannot read properties of undefined (reading 'config')''))
           \<and> (\<forall>action cfg m. find_action acts tool = Inr (Some action)
                  \<and> action_type action = ''schedule'' \<and> action_config action = Some cfg
                  \<and> or_default (cfg_schedule cfg) [] \<noteq> []
                  \<and> q_mode e Q_dispatch_schedule = Throws m \<longrightarrow>
                  r = error_result (''Error processing system tool '' @ tool @ '': '' @ m))"
proof -
  obtain x s' where t: "handleSystemToolCall_try ex e tool acts sess s = (x, s')" by fastforce
  from handleSystemToolCall_try_effect [OF t] assms
  have env: "\<forall>r. x = Inr r \<longrightarrow> is_envelope r" by blast
  have none: "x = Inl ''Cannot read properties of undefined (reading 'config')''"
    if "find_action acts tool = Inr None"
    using that t by (simp add: handleSystemToolCall_try_def)
  have thrown: "x = Inl m"
    if "find_action acts tool = Inr (Some action) \<and> action_type action = ''schedule''
        \<and> action_config action = Some cfg \<and> or_default (cfg_schedule cfg) [] \<noteq> []
        \<and> q_mode e Q_dispatch_schedule = Throws m" for action cfg m
    using that t by (simp add: handleSystemToolCall_try_def schedule_case_def run_query_def)
  show ?thesis
  proof (cases x)
    case (Inl m)
    with t have "fst (handleSystemToolCall ex e tool acts sess s)
                   = Inr (error_result (''Error processing system tool '' @ tool @ '': '' @ m))"
      by (simp add: handleSystemToolCall_def)
    with Inl t none thrown show ?thesis
      by (intro exI [of _ "error_result (''Error processing system tool '' @ tool @ '': '' @ m)"])
         (auto simp: error_result_envelope)
  next
    case (Inr r)
    with t have "fst (handleSystemToolCall ex e tool acts sess s) = Inr r"
      by (simp add: handleSystemToolCall_def)
    with Inr t env none thrown show ?thesis
      by (intro exI [of _ r]) auto
  qed
qed

theorem handleSystemToolCall_returns_envelope_witness:
  "find_action salon_actions ''desconhecida'' = Inr None
   \<and> fst (handleSystemToolCall salon_executors salon_env ''desconhecida'' salon_actions
             salon_session (salon_call []))
       = Inr (error_result (''Error processing system tool desconhecida''
                @ '': Cannot read properties of undefined (reading 'config')''))
   \<and> is_envelope (error_result (''Error processing system tool desconhecida''
                @ '': Cannot read properties of undefined (reading 'config')''))"
proof -
  have h1: "\<forall>a ar se r. processUpdateCustomerAction salon_executors a ar se = Inr r \<longrightarrow> is_envelope r"
    by (simp add: salon_executors_def is_envelope_def)
  have h2: "\<forall>a ar se r. processUpdateChatAction salon_executors a ar se = Inr r \<longrightarrow> is_envelope r"
    by (simp add: salon_executors_def is_envelope_def)
  have h3: "\<forall>a ar se r. processStartFlowAction salon_executors a ar se = Inr r \<longrightarrow> is_envelope r"
    by (simp add: salon_executors_def)
  have none: "find_action salon_actions ''desconhecida'' = Inr None"
    by (simp add: salon_actions_def)
  from handleSystemToolCall_returns_envelope [OF h1 h2 h3, of salon_env "''desconhecida''"
         salon_actions salon_session "salon_call []"] none
  have "fst (handleSystemToolCall salon_executors salon_env ''desconhecida'' salon_actions
             salon_session (salon_call []))
       = Inr (error_result (''Error processing system tool '' @ ''desconhecida''
                @ '': Cannot read properties of undefined (reading 'config')''))
        \<and> is_envelope (error_result (''Error processing system tool '' @ ''desconhecida''
                @ '': Cannot read properties of undefined (reading 'config')''))"
    by blast
  with none show ?thesis by simp
qed

text \<open>
  The claim as stated fails for a failure raised inside the slot computation: the
  provider lookup throws, \<^verbatim>\<open>getAvailableSlots\<close> returns the empty list, and the dispatch
  of \<^verbatim>\<open>checkAvailability\<close> returns status \<^verbatim>\<open>success\<close>.
\<close>

theorem handleSystemToolCall_swallowed_failure_counterexample:
  "getAvailableSlots_try
      (salon_env\<lparr>q_mode := (\<lambda>site. if site = Q_slots_providers then Throws ''fetch failed'' else Answers)\<rparr>)
      (salon []) ''S'' (JStr ''2024-01-08'') JUndefined (Some 30) False = Inl ''fetch failed''
   \<and> (case fst (handleSystemToolCall salon_executors
                  (salon_env\<lparr>q_mode := (\<lambda>site. if site = Q_slots_providers then Throws ''fetch failed''
                                                else Answers)\<rparr>)
                  ''agendar'' salon_actions salon_session
                  (salon_call [(''operation'', JStr ''checkAvailability''),
                               (''date'', JStr ''2024-01-08'')])) of
         Inl m \<Rightarrow> ''escaped''
       | Inr r \<Rightarrow> status r) = ''success''"
  by code_simp

text \<open>
  Claim C10. The arguments object the caller passed is, after the call, that object
  with the resolved identifiers assigned: for a scheduling action \<^verbatim>\<open>service_id\<close> and
  then \<^verbatim>\<open>provider_id\<close>, for a chat action \<^verbatim>\<open>team_id\<close>, for a flow action \<^verbatim>\<open>flow_id\<close>. Each
  holds what the name map in use (the cached one while valid, else the one built from
  the rows of the lookup) yields under the lowercased name, and is assigned only when
  that is truthy; a provider is not resolved once a given service name has failed to
  resolve. A call that finds no action, or an action of another type, leaves the object
  as it was. So every property but these four is as it was, and each of the four is as
  it was or holds a truthy resolved value. The lookup is that of a plain object: under
  the name \<^verbatim>\<open>constructor\<close> it yields the inherited function, which is then what is assigned.
\<close>

theorem handleSystemToolCall_writes_resolved:
  "ds_args (snd (handleSystemToolCall ex e tool acts sess s)) =
     (case find_action acts tool of
        Inr (Some action) \<Rightarrow> resolved_args e sess s action
      | _ \<Rightarrow> ds_args s)
   \<and> only_resolved_written (ds_args s) (ds_args (snd (handleSystemToolCall ex e tool acts sess s)))"
proof -
  obtain x s' where t: "handleSystemToolCall_try ex e tool acts sess s = (x, s')" by fastforce
  have eq: "ds_args (snd (handleSystemToolCall ex e tool acts sess s)) = ds_args s'"
    using t by (simp add: handleSystemToolCall_def split: sum.splits)
  have frame: "only_resolved_written (ds_args s) (ds_args s')"
    using handleSystemToolCall_try_effect [OF t] by blast
  from handleSystemToolCall_try_args [OF t] frame show ?thesis unfolding eq by simp
qed

theorem handleSystemToolCall_writes_resolved_witness:
  "ds_args (snd (handleSystemToolCall salon_executors salon_env ''agendar'' salon_actions
                   salon_session
                   (salon_call [(''operation'', JStr ''checkAvailability''),
                                (''date'', JStr ''2024-01-08''),
                                (''service_name'', JStr ''Corte''),
                                (''provider_name'', JStr ''ANA'')])))
     = [(''operation'', JStr ''checkAvailability''), (''date'', JStr ''2024-01-08''),
        (''service_name'', JStr ''Corte''), (''provider_name'', JStr ''ANA''),
        (''service_id'', JStr ''corte''), (''provider_id'', JStr ''profile-1'')]
   \<and> map_of (ds_args (snd (handleSystemToolCall salon_executors salon_env ''agendar'' salon_actions
                   salon_session
                   (salon_call [(''operation'', JStr ''checkAvailability''),
                                (''date'', JStr ''2024-01-08''),
                                (''service_name'', JStr ''Corte''),
                                (''provider_name'', JStr ''ANA'')])))) ''date''
     = Some (JStr ''2024-01-08'')
   \<and> ds_args (snd (handleSystemToolCall salon_executors salon_env ''agendar'' salon_actions
                   salon_session
                   \<lparr>ds_cache = setCachedMap Map.empty ''org-1'' Services
                                 \<lparr>entries = [(''corte'', JStr ''svc-cached'')], proto = JProto\<rparr>
                                 (Some ''S'') 500,
                    ds_store = salon [],
                    ds_args = [(''operation'', JStr ''checkAvailability''),
                               (''date'', JStr ''2024-01-08''),
                               (''service_name'', JStr ''Corte'')]\<rparr>))
     = [(''operation'', JStr ''checkAvailability''), (''date'', JStr ''2024-01-08''),
        (''service_name'', JStr ''Corte''), (''service_id'', JStr ''svc-cached'')]
   \<and> ds_args (snd (handleSystemToolCall salon_executors salon_env ''agendar'' salon_actions
                   salon_session
                   (salon_call [(''operation'', JStr ''checkAvailability''),
                                (''date'', JStr ''2024-01-08''),
                                (''service_name'', JStr ''Barba''),
                                (''provider_name'', JStr ''Ana'')])))
     = [(''operation'', JStr ''checkAvailability''), (''date'', JStr ''2024-01-08''),
        (''service_name'', JStr ''Barba''), (''provider_name'', JStr ''Ana'')]
   \<and> ds_args (snd (handleSystemToolCall salon_executors salon_env ''agendar'' salon_actions
                   salon_session
                   (salon_call [(''operation'', JStr ''checkAvailability''),
                                (''date'', JStr ''2024-01-08''),
                                (''service_name'', JStr ''Constructor'')])))
     = [(''operation'', JStr ''checkAvailability''), (''date'', JStr ''2024-01-08''),
        (''service_name'', JStr ''Constructor''), (''service_id'', JFun ''Object'')]
   \<and> ds_args (snd (handleSystemToolCall salon_executors salon_env ''transferir'' salon_desk_actions
                   salon_session
                   (salon_call [(''title'', JStr ''Suporte''), (''team_name'', JStr ''VENDAS'')])))
     = [(''title'', JStr ''Suporte''), (''team_name'', JStr ''VENDAS''), (''team_id'', JStr ''team-1'')]
   \<and> ds_args (snd (handleSystemToolCall salon_executors salon_env ''iniciar_fluxo'' salon_actions
                   salon_session (salon_call [(''flow_name'', JStr ''Boas-Vindas'')])))
     = [(''flow_name'', JStr ''Boas-Vindas''), (''flow_id'', JStr ''flow-1'')]
   \<and> ds_args (snd (handleSystemToolCall salon_executors salon_env ''desconhecida'' salon_actions
                   salon_session (salon_call [(''flow_name'', JStr ''Boas-Vindas'')])))
     = [(''flow_name'', JStr ''Boas-Vindas'')]"
proof -
  let ?A = "[(''operation'', JStr ''checkAvailability''), (''date'', JStr ''2024-01-08''),
             (''service_name'', JStr ''Corte''), (''provider_name'', JStr ''ANA'')]"
  let ?C = "\<lparr>ds_cache = setCachedMap Map.empty ''org-1'' Services
                                 \<lparr>entries = [(''corte'', JStr ''svc-cached'')], proto = JProto\<rparr>
                                 (Some ''S'') 500,
                    ds_store = salon [],
                    ds_args = [(''operation'', JStr ''checkAvailability''),
                               (''date'', JStr ''2024-01-08''),
                               (''service_name'', JStr ''Corte'')]\<rparr>"
  let ?B = "[(''operation'', JStr ''checkAvailability''), (''date'', JStr ''2024-01-08''),
             (''service_name'', JStr ''Barba''), (''provider_name'', JStr ''Ana'')]"
  let ?K = "[(''operation'', JStr ''checkAvailability''), (''date'', JStr ''2024-01-08''),
             (''service_name'', JStr ''Constructor'')]"
  let ?T = "[(''title'', JStr ''Suporte''), (''team_name'', JStr ''VENDAS'')]"
  let ?F = "[(''flow_name'', JStr ''Boas-Vindas'')]"
  note t = handleSystemToolCall_writes_resolved [of salon_executors salon_env]
  have a: "(case find_action salon_actions ''agendar'' of
              Inr (Some action) \<Rightarrow> resolved_args salon_env salon_session (salon_call ?A) action
            | _ \<Rightarrow> ds_args (salon_call ?A))
           = ?A @ [(''service_id'', JStr ''corte''), (''provider_id'', JStr ''profile-1'')]"
    by code_simp
  have c: "(case find_action salon_actions ''agendar'' of
              Inr (Some action) \<Rightarrow> resolved_args salon_env salon_session ?C action
            | _ \<Rightarrow> ds_args ?C)
           = ds_args ?C @ [(''service_id'', JStr ''svc-cached'')]"
    by code_simp
  have b: "(case find_action salon_actions ''agendar'' of
              Inr (Some action) \<Rightarrow> resolved_args salon_env salon_session (salon_call ?B) action
            | _ \<Rightarrow> ds_args (salon_call ?B)) = ?B"
    by code_simp
  have k: "(case find_action salon_actions ''agendar'' of
              Inr (Some action) \<Rightarrow> resolved_args salon_env salon_session (salon_call ?K) action
            | _ \<Rightarrow> ds_args (salon_call ?K)) = ?K @ [(''service_id'', JFun ''Object'')]"
    by code_simp
  have tm: "(case find_action salon_desk_actions ''transferir'' of
              Inr (Some action) \<Rightarrow> resolved_args salon_env salon_session (salon_call ?T) action
            | _ \<Rightarrow> ds_args (salon_call ?T)) = ?T @ [(''team_id'', JStr ''team-1'')]"
    by code_simp
  have f: "(case find_action salon_actions ''iniciar_fluxo'' of
              Inr (Some action) \<Rightarrow> resolved_args salon_env salon_session (salon_call ?F) action
            | _ \<Rightarrow> ds_args (salon_call ?F)) = ?F @ [(''flow_id'', JStr ''flow-1'')]"
    by code_simp
  have u: "(case find_action salon_actions ''desconhecida'' of
              Inr (Some action) \<Rightarrow> resolved_args salon_env salon_session (salon_call ?F) action
            | _ \<Rightarrow> ds_args (salon_call ?F)) = ?F"
    by code_simp
  note ta = t [of "''agendar''" salon_actions salon_session "salon_call ?A"]
  have 1: "ds_args (snd (handleSystemToolCall salon_executors salon_env ''agendar'' salon_actions
                   salon_session (salon_call ?A)))
           = ?A @ [(''service_id'', JStr ''corte''), (''provider_id'', JStr ''profile-1'')]"
    using conjunct1 [OF ta] unfolding a .
  have "''date'' \<notin> set resolved_keys" by (simp add: resolved_keys_def)
  with ta have 2: "map_of (ds_args (snd (handleSystemToolCall salon_executors salon_env ''agendar''
                   salon_actions salon_session (salon_call ?A)))) ''date''
                 = map_of (ds_args (salon_call ?A)) ''date''"
    by blast
  have 3: "ds_args (snd (handleSystemToolCall salon_executors salon_env ''agendar'' salon_actions
                   salon_session ?C)) = ds_args ?C @ [(''service_id'', JStr ''svc-cached'')]"
    using conjunct1 [OF t [of "''agendar''" salon_actions salon_session ?C]] unfolding c .
  have 4: "ds_args (snd (handleSystemToolCall salon_executors salon_env ''agendar'' salon_actions
                   salon_session (salon_call ?B))) = ?B"
    using conjunct1 [OF t [of "''agendar''" salon_actions salon_session "salon_call ?B"]] unfolding b .
  have 5: "ds_args (snd (handleSystemToolCall salon_executors salon_env ''agendar'' salon_actions
                   salon_session (salon_call ?K))) = ?K @ [(''service_id'', JFun ''Object'')]"
    using conjunct1 [OF t [of "''agendar''" salon_actions salon_session "salon_call ?K"]] unfolding k .
  have 6: "ds_args (snd (handleSystemToolCall salon_executors salon_env ''transferir'' salon_desk_actions
                   salon_session (salon_call ?T))) = ?T @ [(''team_id'', JStr ''team-1'')]"
    using conjunct1 [OF t [of "''transferir''" salon_desk_actions salon_session "salon_call ?T"]]
    unfolding tm .
  have 7: "ds_args (snd (handleSystemToolCall salon_executors salon_env ''iniciar_fluxo'' salon_actions
                   salon_session (salon_call ?F))) = ?F @ [(''flow_id'', JStr ''flow-1'')]"
    using conjunct1 [OF t [of "''iniciar_fluxo''" salon_actions salon_session "salon_call ?F"]]
    unfolding f .
  have 8: "ds_args (snd (handleSystemToolCall salon_executors salon_env ''desconhecida'' salon_actions
                   salon_session (salon_call ?F))) = ?F"
    using conjunct1 [OF t [of "''desconhecida''" salon_actions salon_session "salon_call ?F"]]
    unfolding u .
  from 1 2 3 4 5 6 7 8 show ?thesis by (simp add: salon_call_def)
qed

end
